theory Spec2Isabelle
  imports Main "HOL-Library.Sublist" "HOL-Library.AList"
begin

text \<open>
  A model of the core of the offline emulator of CloudFront's edge lambdas: the origin
  client (\<^verbatim>\<open>Origin\<close>), the lifecycle of one request (\<^verbatim>\<open>CloudFrontLifecycle\<close>) and the
  behavior router (\<^verbatim>\<open>BehaviorRouter\<close>). Asynchronous functions are functions to the
  state in which their promise ends; what a function changes (the event object of the
  lifecycle, the cache store, the response object of the listener) is passed in and
  returned; the calls that a run makes are recorded in a trace.
\<close>

section \<open>Values, failures and promises\<close>

text \<open>
  The TypeScript sources pass loosely typed values around (\<^verbatim>\<open>Record<string, any>\<close>,
  ports that are numbers in one place and strings in another). The values that reach the
  code modelled here are \<^verbatim>\<open>null\<close>/\<^verbatim>\<open>undefined\<close>, numbers and strings.
\<close>

datatype jsval = Null | Num nat | Str string

text \<open>JavaScript truthiness, as used by \<^verbatim>\<open>!x\<close> and \<^verbatim>\<open>x || y\<close>.\<close>

fun truthy :: "jsval \<Rightarrow> bool" where
  "truthy Null = False"
| "truthy (Num n) = (n \<noteq> 0)"
| "truthy (Str s) = (s \<noteq> [])"

text \<open>A property of an object that may be missing: a missing key reads as undefined.\<close>

definition key_truthy :: "jsval option \<Rightarrow> bool" where
  "key_truthy v = (case v of None \<Rightarrow> False | Some x \<Rightarrow> truthy x)"

definition of_nullable :: "string option \<Rightarrow> jsval" where
  "of_nullable v = (case v of None \<Rightarrow> Null | Some s \<Rightarrow> Str s)"

definition digit :: "nat \<Rightarrow> char" where
  "digit d = char_of (48 + d)"

text \<open>\<^verbatim>\<open>n.toString()\<close> for a non-negative integer.\<close>

function decimal :: "nat \<Rightarrow> string" where
  "decimal n = (if n < 10 then [digit n] else decimal (n div 10) @ [digit (n mod 10)])"
  by pat_completeness auto
termination
  by (relation "measure id") auto

declare decimal.simps [simp del]

text \<open>String conversion as done by \<^verbatim>\<open>x + ':'\<close>.\<close>

fun to_string :: "jsval \<Rightarrow> string" where
  "to_string Null = ''null''"
| "to_string (Num n) = decimal n"
| "to_string (Str s) = s"

text \<open>
  \<^verbatim>\<open>s.toLowerCase()\<close> on the ASCII letters; strings are byte strings here, so letters
  outside ASCII are left as they are.
\<close>

definition lower_char :: "char \<Rightarrow> char" where
  "lower_char c =
     (let n = (of_char c :: nat) in if 65 \<le> n \<and> n \<le> 90 then char_of (n + 32) else c)"

definition toLowerCase :: "string \<Rightarrow> string" where
  "toLowerCase s = map lower_char s"

text \<open>
  Everything that can be thrown. \<open>NoResult\<close> is the engine's own continuation signal
  (\<^verbatim>\<open>errors.NoResult\<close>); \<open>NotFound\<close> is the error built by \<^verbatim>\<open>Boom.notFound()\<close>;
  \<open>Boom c e m\<close> is any other Boom error with output status code \<open>c\<close>, payload error
  \<open>e\<close> and message \<open>m\<close>; \<open>Fault m\<close> is any other \<^verbatim>\<open>Error\<close> with message \<open>m\<close>.
  All of them are error objects.
\<close>

datatype failure = NoResult | NotFound | Boom nat string string | Fault string

fun isBoom :: "failure \<Rightarrow> bool" where
  "isBoom NotFound = True"
| "isBoom (Boom c e m) = True"
| "isBoom NoResult = False"
| "isBoom (Fault m) = False"

text \<open>
  The test \<^verbatim>\<open>err instanceof Boom.notFound\<close> of \<^verbatim>\<open>Origin.retrieve\<close>.
  \<^verbatim>\<open>Boom.notFound\<close> is not a class but the factory that \<^verbatim>\<open>getResource\<close> calls without
  \<^verbatim>\<open>new\<close>: a static method of the Boom class, which has no \<^verbatim>\<open>prototype\<close> and is in
  the prototype chain of no error, also not of the errors it builds. With an object on
  its left the operator asks for that prototype and throws a \<^verbatim>\<open>TypeError\<close>, so the
  test never yields a truth value for a failure. \<open>Inl\<close> is the error thrown by the
  test, \<open>Inr\<close> its value.
\<close>

definition instanceof_TypeError :: failure where
  "instanceof_TypeError = Fault ''Function has non-object prototype in instanceof check''"

definition instanceof_notFound :: "failure \<Rightarrow> failure + bool" where
  "instanceof_notFound err = Inl instanceof_TypeError"

fun message :: "failure \<Rightarrow> string" where
  "message NoResult = []"
| "message NotFound = ''Not Found''"
| "message (Boom c e m) = m"
| "message (Fault m) = m"

fun output_statusCode :: "failure \<Rightarrow> nat" where
  "output_statusCode NotFound = 404"
| "output_statusCode (Boom c e m) = c"
| "output_statusCode e = 500"

fun output_payload_error :: "failure \<Rightarrow> string" where
  "output_payload_error NotFound = ''Not Found''"
| "output_payload_error (Boom c e m) = e"
| "output_payload_error e = ''Internal Server Error''"

definition Boom_internal :: "string \<Rightarrow> failure" where
  "Boom_internal m = Boom 500 ''Internal Server Error'' m"

text \<open>
  The state of an awaited promise: it resolves, it rejects, or it never settles.
\<close>

datatype 'a promise = Resolved 'a | Rejected failure | Pending

section \<open>CloudFront events\<close>

text \<open>
  \<^verbatim>\<open>CloudFrontHeaders\<close>: an object from lower-cased header names to lists of
  key/value entries. Objects are association lists in insertion order; assigning to an
  existing key keeps its position (\<open>AList.update\<close>).
\<close>

type_synonym cf_headers = "(string \<times> (string \<times> string) list) list"

record custom_origin =
  customHeaders :: cf_headers
  domainName :: jsval
  keepaliveTimeout :: nat
  path :: string
  port :: jsval
  protocol :: jsval
  readTimeout :: nat
  sslProtocols :: "string list"

datatype cf_origin = Custom custom_origin | S3

text \<open>
  A \<^verbatim>\<open>CloudFrontRequest\<close>; its field \<^verbatim>\<open>method\<close> is \<open>req_method\<close> here, and of
  its \<^verbatim>\<open>origin\<close> only the custom origin is read.
\<close>

record cf_request =
  req_method :: string
  uri :: string
  headers :: cf_headers
  body :: "string option"
  origin :: "cf_origin option"

record cf_response =
  status :: string
  statusDescription :: "string option"
  resp_headers :: "cf_headers option"
  bodyEncoding :: "string option"
  resp_body :: "string option"

text \<open>\<^verbatim>\<open>event.Records[0].cf\<close>: the request and, once there is one, the response.\<close>

record cf_event =
  request :: cf_request
  response :: "cf_response option"

text \<open>
  What a request-stage handler returns: a request, a response, or nothing.

  Modelled from the spec: \<^verbatim>\<open>utils.isResponseResult\<close>, which is not among the available
  sources. It tells a terminal response from the other results.
\<close>

datatype result = RequestResult cf_request | ResponseResult cf_response | NoValue

fun isResponseResult :: "result \<Rightarrow> bool" where
  "isResponseResult (ResponseResult r) = True"
| "isResponseResult r = False"

fun as_response :: "result \<Rightarrow> cf_response option" where
  "as_response (ResponseResult r) = Some r"
| "as_response r = None"

text \<open>
  Modelled from the spec: \<^verbatim>\<open>utils.combineResult\<close>, which is not among the available
  sources. It builds the event of a response stage: the current request together with
  the response so far.
\<close>

definition combineResult :: "cf_event \<Rightarrow> cf_response option \<Rightarrow> cf_event" where
  "combineResult ev r = \<lparr>request = request ev, response = r\<rparr>"

section \<open>The platform\<close>

text \<open>The parts of the result of Node's \<^verbatim>\<open>url.parse\<close> that the code reads.\<close>

record url =
  url_protocol :: "string option"
  url_hostname :: "string option"
  url_port :: "string option"
  url_path :: "string option"
  url_pathname :: "string option"

text \<open>A header value of an HTTP message: one string or several.\<close>

datatype raw_header = Single string | Multi "string list"

text \<open>
  A value of \<^verbatim>\<open>OutgoingHttpHeaders\<close> as the code builds it: the first value of a
  request header (undefined when there is none), or the entry list of a custom header
  that was spread into the object.
\<close>

datatype header_value = HUndefined | HString string | HEntries "(string \<times> string) list"

record request_options =
  opt_method :: string
  opt_protocol :: "string option"
  opt_hostname :: jsval
  opt_port :: jsval
  opt_path :: "string option"
  opt_headers :: "(string \<times> header_value) list"

text \<open>
  The upstream request as issued: the module (\<^verbatim>\<open>https\<close> or \<^verbatim>\<open>http\<close>), the options,
  and the body chunks written before \<^verbatim>\<open>req.end()\<close>.
\<close>

record client_request =
  use_https :: bool
  options :: request_options
  written :: "string list"

text \<open>What an upstream response emits, in order.\<close>

datatype res_event = Data string | Close | Error failure

record incoming_message =
  im_headers :: "(string \<times> raw_header) list"
  im_statusCode :: "nat option"
  im_events :: "res_event list"

text \<open>
  What becomes of an upstream request: \<^verbatim>\<open>httpModule.request\<close> throws at once (on
  options it does not accept), no response ever arrives, or a response arrives.
\<close>

datatype upstream = Thrown failure | Unanswered | Answered incoming_message

text \<open>The parts of an inbound \<^verbatim>\<open>IncomingMessage\<close> that the router reads or passes on.\<close>

record incoming_request =
  in_method :: "string option"
  in_url :: "string option"
  in_headers :: "(string \<times> raw_header) list"
  in_body :: "string option"

text \<open>
  Node and the helpers of this repository that are not among the available sources are
  parameters of the model:
  \<^item> \<open>parse\<close> is \<^verbatim>\<open>url.parse\<close>, \<open>path_resolve\<close> is \<^verbatim>\<open>path.resolve\<close>,
    \<open>path_join\<close> is \<^verbatim>\<open>path.join\<close>;
  \<^item> \<open>readFile\<close> is \<^verbatim>\<open>fs.readFile(_, 'utf-8')\<close>;
  \<^item> \<open>send\<close> is the network: what \<^verbatim>\<open>httpModule.request\<close> and the upstream do with
    a request;
  \<^item> \<open>toHttpHeaders\<close> is the helper of \<^verbatim>\<open>utils\<close> that lists the request headers to
    forward;
  \<^item> \<open>URL_pathname\<close> is \<^verbatim>\<open>new URL(u, 'http://localhost').pathname\<close>, which throws
    on a malformed url;
  \<^item> \<open>parseInt\<close> is \<^verbatim>\<open>parseInt(_, 10)\<close>, \<open>None\<close> standing for NaN;
  \<^item> \<open>asHttpHeaders\<close> is \<^verbatim>\<open>CloudFrontHeadersHelper.asHttpHeaders\<close>, and
    \<open>convertToCloudFrontEvent\<close> builds the viewer-request event of an inbound request;
  \<^item> \<open>globToRegExp\<close> compiles a path pattern, \<open>load_request_handler\<close> and
    \<open>load_response_handler\<close> load a handler module.
\<close>

type_synonym request_handler = "cf_event \<Rightarrow> cf_event \<times> result promise"
type_synonym response_handler = "cf_event \<Rightarrow> cf_response option promise"

record env =
  parse :: "string \<Rightarrow> url"
  path_resolve :: "string \<Rightarrow> string"
  path_join :: "string \<Rightarrow> string \<Rightarrow> string"
  readFile :: "string \<Rightarrow> string promise"
  send :: "client_request \<Rightarrow> upstream"
  toHttpHeaders :: "cf_headers \<Rightarrow> (string \<times> string list) list"
  URL_pathname :: "string \<Rightarrow> failure + string"
  parseInt :: "string \<Rightarrow> nat option"
  asHttpHeaders :: "cf_headers option \<Rightarrow> (string \<times> string) list"
  convertToCloudFrontEvent :: "incoming_request \<Rightarrow> cf_event"
  globToRegExp :: "string \<Rightarrow> failure + (string \<Rightarrow> bool)"
  load_request_handler :: "string \<Rightarrow> failure + request_handler"
  load_response_handler :: "string \<Rightarrow> failure + response_handler"

section \<open>The origin client\<close>

datatype origin_type = Http | Https | File | Noop

fun type_name :: "origin_type \<Rightarrow> string" where
  "type_name Http = ''http''"
| "type_name Https = ''https''"
| "type_name File = ''file''"
| "type_name Noop = ''noop''"

text \<open>
  \<^verbatim>\<open>customOrigin?: Record<string, any>\<close>: the keys the code reads or spreads into the
  synthesized custom origin; \<open>None\<close> is a missing key.
\<close>

record custom_config =
  cfg_customHeaders :: "cf_headers option"
  cfg_domainName :: "jsval option"
  cfg_keepaliveTimeout :: "nat option"
  cfg_path :: "string option"
  cfg_port :: "jsval option"
  cfg_protocol :: "jsval option"
  cfg_readTimeout :: "nat option"
  cfg_sslProtocols :: "string list option"

record origin_client =
  baseUrl :: string
  type :: origin_type
  customOrigin :: "custom_config option"

text \<open>The three assignments to \<^verbatim>\<open>this.customOrigin\<close> in the constructor.\<close>

definition backfill :: "url \<Rightarrow> custom_config \<Rightarrow> custom_config" where
  "backfill u c =
     (let c1 = (if \<not> key_truthy (cfg_domainName c)
                then c\<lparr>cfg_domainName := Some (of_nullable (url_hostname u))\<rparr> else c);
          c2 = (case url_protocol u of
                  None \<Rightarrow> c1
                | Some p \<Rightarrow>
                    if \<not> key_truthy (cfg_protocol c1) \<and> p \<noteq> []
                    then c1\<lparr>cfg_protocol := Some (Str (butlast p))\<rparr> else c1);
          c3 = (if \<not> key_truthy (cfg_port c2)
                then c2\<lparr>cfg_port := Some (of_nullable (url_port u))\<rparr> else c2)
      in c3)"

text \<open>
  \<^verbatim>\<open>new Origin(baseUrl = '', customOrigin?)\<close>. The regular expressions
  \<^verbatim>\<open>/^http:\/\//\<close> and \<^verbatim>\<open>/^https:\/\//\<close> are prefix tests.
\<close>

definition Origin :: "env \<Rightarrow> string \<Rightarrow> custom_config option \<Rightarrow> origin_client" where
  "Origin E target cfg =
     (let this =
        (if target = [] then \<lparr>baseUrl = target, type = Noop, customOrigin = None\<rparr>
         else if prefix ''http://'' target
           then \<lparr>baseUrl = target, type = Http, customOrigin = None\<rparr>
         else if prefix ''https://'' target
           then \<lparr>baseUrl = target, type = Https, customOrigin = None\<rparr>
         else \<lparr>baseUrl = path_resolve E target, type = File, customOrigin = None\<rparr>)
      in this\<lparr>customOrigin := map_option (backfill (parse E (baseUrl this))) cfg\<rparr>)"

record resource =
  rsc_headers :: "(string \<times> raw_header) list"
  rsc_statusCode :: "nat option"
  rsc_data :: string

text \<open>A nullable string inside a template literal.\<close>

definition template :: "string option \<Rightarrow> string" where
  "template v = (case v of None \<Rightarrow> ''null'' | Some s \<Rightarrow> s)"

definition getFileResource :: "env \<Rightarrow> origin_client \<Rightarrow> string \<Rightarrow> resource promise" where
  "getFileResource E this key =
     (let fileName = url_pathname (parse E key) in
      case readFile E (baseUrl this @ ''/'' @ template fileName) of
        Resolved fileContent \<Rightarrow>
          Resolved \<lparr>rsc_headers = [], rsc_statusCode = None, rsc_data = fileContent\<rparr>
      | Rejected e \<Rightarrow> Rejected e
      | Pending \<Rightarrow> Pending)"

text \<open>The \<^verbatim>\<open>reduce\<close> over \<^verbatim>\<open>toHttpHeaders(request.headers)\<close>.\<close>

definition outgoing_headers :: "env \<Rightarrow> cf_headers \<Rightarrow> (string \<times> header_value) list" where
  "outgoing_headers E hs =
     foldl (\<lambda>acc item.
              AList.update (fst item)
                (case snd item of [] \<Rightarrow> HUndefined | v # vs \<Rightarrow> HString v) acc)
           [] (toHttpHeaders E hs)"

text \<open>Object spread: the keys of the second object are assigned in order.\<close>

definition assign :: "('k \<times> 'v) list \<Rightarrow> ('k \<times> 'v) list \<Rightarrow> ('k \<times> 'v) list" where
  "assign obj src = foldl (\<lambda>acc kv. AList.update (fst kv) (snd kv) acc) obj src"

definition default_port :: "bool \<Rightarrow> jsval" where
  "default_port https = (if https then Num 443 else Num 80)"

text \<open>The \<^verbatim>\<open>options\<close> object of \<^verbatim>\<open>getHttpResource\<close>.\<close>

definition http_options :: "env \<Rightarrow> origin_client \<Rightarrow> cf_request \<Rightarrow> request_options" where
  "http_options E this rq =
     (let u = parse E (uri rq);
          base = parse E (baseUrl this);
          hs = outgoing_headers E (headers rq)
      in case origin rq of
           Some (Custom custom) \<Rightarrow>
             \<lparr>opt_method = req_method rq,
              opt_protocol = Some (to_string (protocol custom) @ '':''),
              opt_hostname = domainName custom,
              opt_port = (if truthy (port custom) then port custom
                          else default_port (protocol custom = Str ''https'')),
              opt_path = url_path u,
              opt_headers =
                AList.update ''connection'' (HString ''Close'')
                  (assign hs (map (\<lambda>kv. (fst kv, HEntries (snd kv))) (customHeaders custom)))\<rparr>
         | _ \<Rightarrow>
             \<lparr>opt_method = req_method rq,
              opt_protocol = url_protocol base,
              opt_hostname = of_nullable (url_hostname base),
              opt_port = (if truthy (of_nullable (url_port base)) then of_nullable (url_port base)
                          else default_port (url_protocol base = Some ''https:'')),
              opt_path = url_path u,
              opt_headers = AList.update ''connection'' (HString ''Close'') hs\<rparr>)"

text \<open>
  The request that \<^verbatim>\<open>getHttpResource\<close> hands to the network: \<^verbatim>\<open>httpModule.request(options, _)\<close>
  followed at once by \<^verbatim>\<open>req.end()\<close>, with no \<^verbatim>\<open>req.write\<close> in between.
\<close>

definition getHttpResource_request :: "env \<Rightarrow> origin_client \<Rightarrow> cf_request \<Rightarrow> client_request" where
  "getHttpResource_request E this rq =
     (let opts = http_options E this rq;
          isHttps = prefix ''https''
            (case opt_protocol opts of
               None \<Rightarrow> type_name (type this)
             | Some p \<Rightarrow> if p \<noteq> [] then p else type_name (type this))
      in \<lparr>use_https = isHttps, options = opts, written = []\<rparr>)"

text \<open>
  The listeners on the upstream response: \<^verbatim>\<open>data\<close> pushes a chunk, \<^verbatim>\<open>close\<close> resolves
  with the concatenation of the chunks, \<^verbatim>\<open>error\<close> rejects. A promise settles once, so
  the first \<^verbatim>\<open>close\<close> or \<^verbatim>\<open>error\<close> decides; without either the promise never settles.
\<close>

fun on_response :: "incoming_message \<Rightarrow> string list \<Rightarrow> res_event list \<Rightarrow> resource promise" where
  "on_response res chunks [] = Pending"
| "on_response res chunks (Data chunk # es) = on_response res (chunks @ [chunk]) es"
| "on_response res chunks (Close # es) =
     Resolved \<lparr>rsc_headers = im_headers res, rsc_statusCode = im_statusCode res,
               rsc_data = concat chunks\<rparr>"
| "on_response res chunks (Error err # es) = Rejected err"

text \<open>
  An exception thrown inside the promise's executor rejects the promise. No listener is
  registered on the request itself: when no response arrives, the promise never settles.
\<close>

definition getHttpResource :: "env \<Rightarrow> origin_client \<Rightarrow> cf_request \<Rightarrow> resource promise" where
  "getHttpResource E this rq =
     (case send E (getHttpResource_request E this rq) of
        Thrown err \<Rightarrow> Rejected err
      | Unanswered \<Rightarrow> Pending
      | Answered res \<Rightarrow> on_response res [] (im_events res))"

definition getResource :: "env \<Rightarrow> origin_client \<Rightarrow> cf_request \<Rightarrow> resource promise" where
  "getResource E this rq =
     (case type this of
        File \<Rightarrow> getFileResource E this (uri rq)
      | Http \<Rightarrow> getHttpResource E this rq
      | Https \<Rightarrow> getHttpResource E this rq
      | Noop \<Rightarrow> Rejected NotFound)"

fun join_comma :: "string list \<Rightarrow> string" where
  "join_comma [] = []"
| "join_comma [s] = s"
| "join_comma (s # t # ss) = s @ '','' @ join_comma (t # ss)"

text \<open>\<^verbatim>\<open>value ? value.toString() : ''\<close>\<close>

fun header_string :: "raw_header \<Rightarrow> string" where
  "header_string (Single s) = s"
| "header_string (Multi ss) = join_comma ss"

definition addHeader :: "cf_headers \<Rightarrow> string \<times> raw_header \<Rightarrow> cf_headers" where
  "addHeader headersObject kv =
     (if fst kv \<noteq> []
      then AList.update (toLowerCase (fst kv)) [(fst kv, header_string (snd kv))] headersObject
      else headersObject)"

definition resource_response :: "resource \<Rightarrow> cf_response" where
  "resource_response r =
     \<lparr>status = decimal (case rsc_statusCode r of None \<Rightarrow> 0 | Some c \<Rightarrow> c),
      statusDescription = Some [],
      resp_headers = Some (foldl addHeader [] (rsc_headers r)),
      bodyEncoding = Some ''text'',
      resp_body = Some (rsc_data r)\<rparr>"

text \<open>
  \<^verbatim>\<open>retrieve\<close>: the \<^verbatim>\<open>try\<close> block makes a response of the fetched resource; the
  \<^verbatim>\<open>catch\<close> block first evaluates the test, and an error thrown there rejects the
  promise of \<^verbatim>\<open>retrieve\<close> before either \<^verbatim>\<open>return\<close> of the block is reached.
\<close>

definition retrieve :: "env \<Rightarrow> origin_client \<Rightarrow> cf_event \<Rightarrow> cf_response promise" where
  "retrieve E this ev =
     (case getResource E this (request ev) of
        Resolved r \<Rightarrow> Resolved (resource_response r)
      | Rejected err \<Rightarrow>
          (case instanceof_notFound err of
             Inl thrown \<Rightarrow> Rejected thrown
           | Inr True \<Rightarrow>
               Resolved \<lparr>status = ''404'', statusDescription = None, resp_headers = None,
                         bodyEncoding = None, resp_body = None\<rparr>
           | Inr False \<Rightarrow>
               Resolved \<lparr>status = ''500'', statusDescription = Some (message err),
                         resp_headers = None, bodyEncoding = None, resp_body = None\<rparr>)
      | Pending \<Rightarrow> Pending)"

section \<open>Function sets and the cache service\<close>

datatype stage = ViewerRequest | OriginRequest | OriginResponse | ViewerResponse

text \<open>
  Modelled from the spec: the class \<^verbatim>\<open>FunctionSet\<close>, which is not among the available
  sources. It holds the pattern, its compiled expression, one handler per stage and the
  origin. A request-stage handler receives the event object of the lifecycle and may
  change it in place: it returns the event as it left it together with its outcome. A
  response-stage handler receives the event built by \<open>combineResult\<close>.
\<close>

record function_set =
  pattern :: string
  regex :: "string \<Rightarrow> bool"
  viewerRequest :: request_handler
  originRequest :: request_handler
  originResponse :: response_handler
  viewerResponse :: response_handler
  fs_origin :: origin_client

text \<open>
  Modelled from the spec: the class \<^verbatim>\<open>CacheService\<close> and the helper
  \<^verbatim>\<open>utils.toResultResponse\<close>, which are not among the available sources. The store
  \<open>'s\<close> and the entries \<open>'c\<close> are left open: a lookup is a function of the store and
  the event, a write and a purge give the new store.
\<close>

record ('s, 'c) cache_service =
  retrieveFromCache :: "'s \<Rightarrow> cf_event \<Rightarrow> 'c option"
  saveToCache :: "'s \<Rightarrow> cf_event \<Rightarrow> 's"
  purge :: "'s \<Rightarrow> 's"
  toResultResponse :: "'c \<Rightarrow> cf_response"

section \<open>The lifecycle\<close>

text \<open>
  The calls that leave the lifecycle object, in the order they are made. Log lines are
  left out.
\<close>

datatype effect = Invoke stage | CacheLookup | CacheWrite | OriginFetch

text \<open>The fields of \<^verbatim>\<open>CloudFrontLifecycle\<close> that do not change during a run.\<close>

record ('s, 'c) lifecycle =
  disableCache :: bool
  fileService :: "('s, 'c) cache_service"
  fnSet :: function_set

text \<open>What a run changes: its event object, the cache store, and the calls made so far.\<close>

record 's lifecycle_state =
  event :: cf_event
  store :: 's
  trace :: "effect list"

definition emit :: "effect \<Rightarrow> 's lifecycle_state \<Rightarrow> 's lifecycle_state" where
  "emit x st = st\<lparr>trace := trace st @ [x]\<rparr>"

definition onViewerResponse ::
  "('s, 'c) lifecycle \<Rightarrow> 's lifecycle_state \<Rightarrow> cf_response option
     \<Rightarrow> 's lifecycle_state \<times> cf_response option promise" where
  "onViewerResponse L st r =
     (emit (Invoke ViewerResponse) st,
      viewerResponse (fnSet L) (combineResult (event st) r))"

definition onViewerRequest ::
  "('s, 'c) lifecycle \<Rightarrow> 's lifecycle_state
     \<Rightarrow> 's lifecycle_state \<times> cf_response option promise" where
  "onViewerRequest L st =
     (case viewerRequest (fnSet L) (event st) of
        (ev, out) \<Rightarrow>
          (let st1 = (emit (Invoke ViewerRequest) st)\<lparr>event := ev\<rparr> in
           case out of
             Resolved r \<Rightarrow>
               if isResponseResult r then onViewerResponse L st1 (as_response r)
               else (st1, Rejected NoResult)
           | Rejected e \<Rightarrow> (st1, Rejected e)
           | Pending \<Rightarrow> (st1, Pending)))"

definition onCache ::
  "('s, 'c) lifecycle \<Rightarrow> 's lifecycle_state
     \<Rightarrow> 's lifecycle_state \<times> cf_response option promise" where
  "onCache L st =
     (if disableCache L then (st, Rejected NoResult)
      else
        (let st1 = emit CacheLookup st in
         case retrieveFromCache (fileService L) (store st) (event st) of
           None \<Rightarrow> (st1, Rejected NoResult)
         | Some cached \<Rightarrow>
             onViewerResponse L st1 (Some (toResultResponse (fileService L) cached))))"

definition onOrigin ::
  "env \<Rightarrow> ('s, 'c) lifecycle \<Rightarrow> 's lifecycle_state
     \<Rightarrow> 's lifecycle_state \<times> cf_response promise" where
  "onOrigin E L st = (emit OriginFetch st, retrieve E (fs_origin (fnSet L)) (event st))"

definition onOriginResponse ::
  "('s, 'c) lifecycle \<Rightarrow> 's lifecycle_state \<Rightarrow> cf_response option
     \<Rightarrow> 's lifecycle_state \<times> cf_response option promise" where
  "onOriginResponse L st r =
     (emit (Invoke OriginResponse) st,
      originResponse (fnSet L) (combineResult (event st) r))"

text \<open>
  \<^verbatim>\<open>Number(port)\<close> for the port of a parsed url, which is null or a string of digits.
\<close>

definition Number :: "string option \<Rightarrow> nat" where
  "Number v =
     (case v of
        None \<Rightarrow> 0
      | Some s \<Rightarrow> foldl (\<lambda>acc c. 10 * acc + (of_char c - 48)) 0 s)"

text \<open>
  The object \<^verbatim>\<open>custom\<close> of \<^verbatim>\<open>onOriginRequest\<close>: the defaults, overridden by the keys
  of the origin's \<^verbatim>\<open>customOrigin\<close>, with the domain name filled in from the request.
\<close>

definition synthesize_custom :: "env \<Rightarrow> custom_config \<Rightarrow> cf_request \<Rightarrow> custom_origin" where
  "synthesize_custom E cfg rq =
     (let u = parse E (uri rq);
          proto = (if url_protocol u = Some ''https:'' then ''https'' else ''http'');
          custom =
            \<lparr>customHeaders = (case cfg_customHeaders cfg of None \<Rightarrow> [] | Some h \<Rightarrow> h),
             domainName = (case cfg_domainName cfg of None \<Rightarrow> Str [] | Some d \<Rightarrow> d),
             keepaliveTimeout = (case cfg_keepaliveTimeout cfg of None \<Rightarrow> 5 | Some t \<Rightarrow> t),
             path = (case cfg_path cfg of None \<Rightarrow> [] | Some p \<Rightarrow> p),
             port = (case cfg_port cfg of None \<Rightarrow> Num (Number (url_port u)) | Some p \<Rightarrow> p),
             protocol = (case cfg_protocol cfg of None \<Rightarrow> Str proto | Some p \<Rightarrow> p),
             readTimeout = (case cfg_readTimeout cfg of None \<Rightarrow> 30 | Some t \<Rightarrow> t),
             sslProtocols = (case cfg_sslProtocols cfg of
                               None \<Rightarrow> [''TLSv1'', ''TLSv1.1'', ''TLSv1.2'']
                             | Some ps \<Rightarrow> ps)\<rparr>
      in if \<not> truthy (domainName custom)
         then custom\<lparr>domainName := Str (case url_hostname u of None \<Rightarrow> [] | Some h \<Rightarrow> h)\<rparr>
         else custom)"

definition set_request_origin :: "cf_origin option \<Rightarrow> cf_event \<Rightarrow> cf_event" where
  "set_request_origin v ev = ev\<lparr>request := (request ev)\<lparr>origin := v\<rparr>\<rparr>"

text \<open>
  The first statement of \<^verbatim>\<open>onOriginRequest\<close>: when the origin of the function set has
  a \<^verbatim>\<open>customOrigin\<close>, the request of the event gets the synthesized custom origin.
\<close>

definition attach_custom_origin :: "env \<Rightarrow> origin_client \<Rightarrow> cf_event \<Rightarrow> cf_event" where
  "attach_custom_origin E org ev =
     (case customOrigin org of
        None \<Rightarrow> ev
      | Some cfg \<Rightarrow>
          set_request_origin (Some (Custom (synthesize_custom E cfg (request ev)))) ev)"

definition onOriginRequest ::
  "env \<Rightarrow> ('s, 'c) lifecycle \<Rightarrow> 's lifecycle_state
     \<Rightarrow> 's lifecycle_state \<times> cf_response option promise" where
  "onOriginRequest E L st =
     (let st0 = st\<lparr>event := attach_custom_origin E (fs_origin (fnSet L)) (event st)\<rparr>
      in case originRequest (fnSet L) (event st0) of
           (ev, out) \<Rightarrow>
             (let st1 = (emit (Invoke OriginRequest) st0)\<lparr>event := ev\<rparr> in
              case out of
                Resolved r \<Rightarrow>
                  if isResponseResult r then (st1, Resolved (as_response r))
                  else
                    (case onOrigin E L st1 of
                       (st2, Resolved resultFromOrigin) \<Rightarrow>
                         onOriginResponse L st2 (Some resultFromOrigin)
                     | (st2, Rejected e) \<Rightarrow> (st2, Rejected e)
                     | (st2, Pending) \<Rightarrow> (st2, Pending))
              | Rejected e \<Rightarrow> (st1, Rejected e)
              | Pending \<Rightarrow> (st1, Pending)))"

text \<open>
  The last three statements of \<^verbatim>\<open>run\<close>: the request's origin is deleted, the result
  is saved to the cache, and the viewer-response stage runs.
\<close>

definition run_finish ::
  "('s, 'c) lifecycle \<Rightarrow> 's lifecycle_state \<Rightarrow> cf_response option
     \<Rightarrow> 's lifecycle_state \<times> cf_response option promise" where
  "run_finish L st result =
     (let st1 = st\<lparr>event := set_request_origin None (event st)\<rparr>;
          st2 = (emit CacheWrite st1)
                  \<lparr>store := saveToCache (fileService L) (store st1)
                              (combineResult (event st1) result)\<rparr>
      in onViewerResponse L st2 result)"

definition run ::
  "env \<Rightarrow> ('s, 'c) lifecycle \<Rightarrow> 's lifecycle_state
     \<Rightarrow> 's lifecycle_state \<times> cf_response option promise" where
  "run E L st =
     (case onViewerRequest L st of
        (st1, Resolved v) \<Rightarrow> (st1, Resolved v)
      | (st1, Pending) \<Rightarrow> (st1, Pending)
      | (st1, Rejected err) \<Rightarrow>
          if err \<noteq> NoResult then (st1, Rejected err)
          else
            (case onCache L st1 of
               (st2, Resolved v) \<Rightarrow> (st2, Resolved v)
             | (st2, Pending) \<Rightarrow> (st2, Pending)
             | (st2, Rejected err) \<Rightarrow>
                 if err \<noteq> NoResult then (st2, Rejected err)
                 else
                   (case onOriginRequest E L st2 of
                      (st3, Resolved result) \<Rightarrow> run_finish L st3 result
                    | (st3, Rejected e) \<Rightarrow> (st3, Rejected e)
                    | (st3, Pending) \<Rightarrow> (st3, Pending))))"

text \<open>A new lifecycle object: the event of the request, and no call made yet.\<close>

definition start :: "cf_event \<Rightarrow> 's \<Rightarrow> 's lifecycle_state" where
  "start ev s = \<lparr>event = ev, store = s, trace = []\<rparr>"

section \<open>The behavior router\<close>

record edge_lambda_options =
  la_distribution :: string
  la_eventType :: "stage option"
  la_pathPattern :: string

record cloudfront_event_options =
  ce_eventType :: "stage option"
  ce_pathPattern :: string

record serverless_lambda_event =
  cloudFront :: "cloudfront_event_options option"

record serverless_function =
  handler :: string
  lambdaAtEdge :: "edge_lambda_options option"
  events :: "serverless_lambda_event list"

record origin_mapping =
  om_pathPattern :: string
  om_target :: string
  om_customOriginConfig :: "custom_config option"

text \<open>\<^verbatim>\<open>Map<string, FunctionSet>\<close>, in insertion order.\<close>

type_synonym behaviors = "(string \<times> function_set) list"

definition identityRequestHandler :: request_handler where
  "identityRequestHandler ev = (ev, Resolved (RequestResult (request ev)))"

definition identityResponseHandler :: response_handler where
  "identityResponseHandler ev = Resolved (response ev)"

text \<open>
  Modelled from the spec: the constructor of \<^verbatim>\<open>FunctionSet\<close>. It compiles the
  pattern (which fails on a malformed pattern), starts with pass-through handlers and
  takes the origin of kind none when no origin is given.
\<close>

definition FunctionSet :: "env \<Rightarrow> string \<Rightarrow> origin_client option \<Rightarrow> failure + function_set" where
  "FunctionSet E pat org =
     (case globToRegExp E pat of
        Inl e \<Rightarrow> Inl e
      | Inr re \<Rightarrow>
          Inr \<lparr>pattern = pat, regex = re,
               viewerRequest = identityRequestHandler,
               originRequest = identityRequestHandler,
               originResponse = identityResponseHandler,
               viewerResponse = identityResponseHandler,
               fs_origin = (case org of None \<Rightarrow> Origin E [] None | Some x \<Rightarrow> x)\<rparr>)"

text \<open>
  Modelled from the spec: \<^verbatim>\<open>FunctionSet.setHandler\<close>. It loads the handler module
  and replaces the handler of the stage; the other stages stay as they are.
\<close>

definition setHandler :: "env \<Rightarrow> function_set \<Rightarrow> stage \<Rightarrow> string \<Rightarrow> failure + function_set" where
  "setHandler E fs eventType p =
     (case eventType of
        ViewerRequest \<Rightarrow>
          (case load_request_handler E p of
             Inl e \<Rightarrow> Inl e | Inr h \<Rightarrow> Inr (fs\<lparr>viewerRequest := h\<rparr>))
      | OriginRequest \<Rightarrow>
          (case load_request_handler E p of
             Inl e \<Rightarrow> Inl e | Inr h \<Rightarrow> Inr (fs\<lparr>originRequest := h\<rparr>))
      | OriginResponse \<Rightarrow>
          (case load_response_handler E p of
             Inl e \<Rightarrow> Inl e | Inr h \<Rightarrow> Inr (fs\<lparr>originResponse := h\<rparr>))
      | ViewerResponse \<Rightarrow>
          (case load_response_handler E p of
             Inl e \<Rightarrow> Inl e | Inr h \<Rightarrow> Inr (fs\<lparr>viewerResponse := h\<rparr>)))"

definition configureOrigins :: "env \<Rightarrow> origin_mapping list \<Rightarrow> (string \<times> origin_client) list" where
  "configureOrigins E mappings =
     foldl (\<lambda>acc item.
              AList.update (om_pathPattern item)
                (Origin E (om_target item) (om_customOriginConfig item)) acc)
           [] mappings"

definition nativeDef :: "serverless_function \<Rightarrow> cloudfront_event_options" where
  "nativeDef d =
     (case List.map_filter cloudFront (events d) of
        [] \<Rightarrow> \<lparr>ce_eventType = None, ce_pathPattern = []\<rparr>
      | c # cs \<Rightarrow> c)"

definition pattern_of :: "serverless_function \<Rightarrow> string" where
  "pattern_of d =
     (let custom = (case lambdaAtEdge d of None \<Rightarrow> [] | Some c \<Rightarrow> la_pathPattern c) in
      if custom \<noteq> [] then custom
      else if ce_pathPattern (nativeDef d) \<noteq> [] then ce_pathPattern (nativeDef d)
      else ''*'')"

definition eventType_of :: "serverless_function \<Rightarrow> stage option" where
  "eventType_of d =
     (case lambdaAtEdge d of
        None \<Rightarrow> ce_eventType (nativeDef d)
      | Some c \<Rightarrow>
          (case la_eventType c of None \<Rightarrow> ce_eventType (nativeDef d) | Some t \<Rightarrow> Some t))"

text \<open>The body of the loop over the lambda definitions, and the loop.\<close>

definition register_def ::
  "env \<Rightarrow> (string \<times> origin_client) list \<Rightarrow> string \<Rightarrow> behaviors \<Rightarrow> serverless_function
     \<Rightarrow> failure + behaviors" where
  "register_def E origins base bs d =
     (let pat = pattern_of d in
      case (case map_of bs pat of
              Some fs \<Rightarrow> Inr (bs, fs)
            | None \<Rightarrow>
                (case FunctionSet E pat (map_of origins pat) of
                   Inl e \<Rightarrow> Inl e
                 | Inr fs \<Rightarrow> Inr (bs @ [(pat, fs)], fs))) of
        Inl e \<Rightarrow> Inl e
      | Inr (bs1, fs1) \<Rightarrow>
          (case eventType_of d of
             None \<Rightarrow> Inr bs1
           | Some eventType \<Rightarrow>
               (case setHandler E fs1 eventType (path_join E base (handler d)) of
                  Inl e \<Rightarrow> Inl e
                | Inr fs \<Rightarrow> Inr (AList.update pat fs bs1))))"

fun register_defs ::
  "env \<Rightarrow> (string \<times> origin_client) list \<Rightarrow> string \<Rightarrow> behaviors \<Rightarrow> serverless_function list
     \<Rightarrow> failure + behaviors" where
  "register_defs E origins base bs [] = Inr bs"
| "register_defs E origins base bs (d # ds) =
     (case register_def E origins base bs d of
        Inl e \<Rightarrow> Inl e
      | Inr bs1 \<Rightarrow> register_defs E origins base bs1 ds)"

text \<open>The entries of \<^verbatim>\<open>functions\<close> that are edge lambdas.\<close>

definition lambdaDefs ::
  "(string \<times> serverless_function) list \<Rightarrow> (string \<times> serverless_function) list" where
  "lambdaDefs functions =
     filter (\<lambda>kv. lambdaAtEdge (snd kv) \<noteq> None
                   \<or> list_ex (\<lambda>ev. cloudFront ev \<noteq> None) (events (snd kv))) functions"

definition extractBehaviors ::
  "env \<Rightarrow> (string \<times> origin_client) list \<Rightarrow> string \<Rightarrow> (string \<times> serverless_function) list
     \<Rightarrow> failure + behaviors" where
  "extractBehaviors E origins base functions =
     (case register_defs E origins base [] (map snd (lambdaDefs functions)) of
        Inl e \<Rightarrow> Inl e
      | Inr bs \<Rightarrow>
          if map_of bs ''*'' = None
          then (case FunctionSet E ''*'' (map_of origins ''*'') of
                  Inl e \<Rightarrow> Inl e
                | Inr fs \<Rightarrow> Inr (bs @ [(''*'', fs)]))
          else Inr bs)"

text \<open>
  \<^verbatim>\<open>match\<close>: no function set for a request without a url; otherwise the first
  function set, in insertion order, whose expression accepts the path of the url, and
  the set registered under \<^verbatim>\<open>*\<close> when none does.
\<close>

definition match :: "env \<Rightarrow> behaviors \<Rightarrow> incoming_request \<Rightarrow> failure + function_set option" where
  "match E bs req =
     (case in_url req of
        None \<Rightarrow> Inr None
      | Some u \<Rightarrow>
          if u = [] then Inr None
          else
            (case URL_pathname E u of
               Inl e \<Rightarrow> Inl e
             | Inr pathname \<Rightarrow>
                 (case find (\<lambda>kv. regex (snd kv) pathname) bs of
                    Some kv \<Rightarrow> Inr (Some (snd kv))
                  | None \<Rightarrow> Inr (map_of bs ''*''))))"

datatype ending = NotEnded | Ended "string option"

record server_response =
  statusCode :: "nat option"
  statusMessage :: string
  res_headers :: "(string \<times> string \<times> string) list"
  finished :: ending

definition handleError :: "failure \<Rightarrow> server_response \<Rightarrow> server_response" where
  "handleError err res =
     res\<lparr>statusCode := Some (output_statusCode err),
         statusMessage := output_payload_error err,
         finished := Ended (Some (message err))\<rparr>"

definition upper_char :: "char \<Rightarrow> char" where
  "upper_char c =
     (let n = (of_char c :: nat) in if 97 \<le> n \<and> n \<le> 122 then char_of (n - 32) else c)"

definition toUpperCase :: "string \<Rightarrow> string" where
  "toUpperCase s = map upper_char s"

text \<open>
  The statements of the listener that write a response of the lifecycle to the client.
  \<open>None\<close> as status code is NaN.
\<close>

definition write_response :: "env \<Rightarrow> cf_response \<Rightarrow> server_response \<Rightarrow> server_response" where
  "write_response E r res =
     (let res1 = res\<lparr>statusCode := parseInt E (status r),
                     statusMessage := (case statusDescription r of None \<Rightarrow> [] | Some d \<Rightarrow> d)\<rparr>;
          res2 = foldl (\<lambda>acc kv.
                          if snd kv \<noteq> []
                          then acc\<lparr>res_headers :=
                                 AList.update (toLowerCase (fst kv)) (fst kv, snd kv)
                                   (res_headers acc)\<rparr>
                          else acc)
                       res1 (asHttpHeaders E (resp_headers r))
      in res2\<lparr>finished := Ended (resp_body r)\<rparr>)"

text \<open>The fields of the router that the request handler uses.\<close>

record ('s, 'c) behavior_router =
  rt_behaviors :: behaviors
  rt_disableCache :: bool
  rt_cacheService :: "('s, 'c) cache_service"

text \<open>
  The function that \<^verbatim>\<open>listen\<close> hands to \<^verbatim>\<open>asyncMiddleware\<close>: from the cache store,
  the inbound request and the response object to the new store, the response object as
  the function leaves it, and how the function's promise settles.
\<close>

definition request_handler ::
  "env \<Rightarrow> ('s, 'c) behavior_router \<Rightarrow> 's \<Rightarrow> incoming_request \<Rightarrow> server_response
     \<Rightarrow> 's \<times> server_response \<times> unit promise" where
  "request_handler E this s req res =
     (if toUpperCase (case in_method req of None \<Rightarrow> [] | Some m \<Rightarrow> m) = ''PURGE''
      then (purge (rt_cacheService this) s,
            res\<lparr>statusCode := Some 200, finished := Ended None\<rparr>, Resolved ())
      else
        (case match E (rt_behaviors this) req of
           Inl e \<Rightarrow> (s, res, Rejected e)
         | Inr None \<Rightarrow> (s, res\<lparr>statusCode := Some 404, finished := Ended None\<rparr>, Resolved ())
         | Inr (Some fs) \<Rightarrow>
             (let cfEvent = convertToCloudFrontEvent E req;
                  lifecycle = \<lparr>disableCache = rt_disableCache this,
                               fileService = rt_cacheService this, fnSet = fs\<rparr>
              in case run E lifecycle (start cfEvent s) of
                   (st, Pending) \<Rightarrow> (store st, res, Pending)
                 | (st, Rejected err) \<Rightarrow>
                     (store st, if isBoom err then handleError err res else res, Resolved ())
                 | (st, Resolved None) \<Rightarrow>
                     (store st,
                      handleError (Boom_internal ''Internal Server Error'') res, Resolved ())
                 | (st, Resolved (Some r)) \<Rightarrow>
                     (store st, write_response E r res, Resolved ()))))"

section \<open>Concrete instances\<close>

text \<open>
  A small platform, a cache service and a few handlers on which the theorems below are
  exercised. \<open>ex_parse\<close> stands in for \<^verbatim>\<open>url.parse\<close> on the few urls used,
  \<open>ex_glob\<close> for the pattern compiler, and the cache keeps its entries in an association
  list under the method and uri of the request.
\<close>

definition ex_parse :: "string \<Rightarrow> url" where
  "ex_parse s =
     (if s = ''http://origin.test:8080''
      then \<lparr>url_protocol = Some ''http:'', url_hostname = Some ''origin.test'',
            url_port = Some ''8080'', url_path = Some ''/'', url_pathname = Some ''/''\<rparr>
      else if s = ''https://secure.test''
      then \<lparr>url_protocol = Some ''https:'', url_hostname = Some ''secure.test'',
            url_port = None, url_path = Some ''/'', url_pathname = Some ''/''\<rparr>
      else \<lparr>url_protocol = None, url_hostname = None, url_port = None,
            url_path = Some s, url_pathname = Some s\<rparr>)"

definition ex_message :: incoming_message where
  "ex_message =
     \<lparr>im_headers = [(''Content-Type'', Single ''text/plain'')],
      im_statusCode = Some 200,
      im_events = [Data ''he'', Data ''llo'', Close]\<rparr>"

definition ex_glob :: "string \<Rightarrow> failure + (string \<Rightarrow> bool)" where
  "ex_glob pat =
     (if pat = [] then Inl (Fault ''empty pattern'')
      else if pat = ''*'' then Inr (\<lambda>p. True)
      else if last pat = CHR ''*'' then Inr (\<lambda>p. prefix (butlast pat) p)
      else Inr (\<lambda>p. p = pat))"

definition ex_convert :: "incoming_request \<Rightarrow> cf_event" where
  "ex_convert req =
     \<lparr>request =
        \<lparr>req_method = (case in_method req of None \<Rightarrow> ''GET'' | Some m \<Rightarrow> m),
         uri = (case in_url req of None \<Rightarrow> ''/'' | Some u \<Rightarrow> u),
         headers = [], body = in_body req, origin = None\<rparr>,
      response = None\<rparr>"

definition ex_env :: env where
  "ex_env =
     \<lparr>parse = ex_parse,
      path_resolve = (\<lambda>p. ''/srv/'' @ p),
      path_join = (\<lambda>a b. a @ ''/'' @ b),
      readFile = (\<lambda>p. Resolved ''<html>''),
      send = (\<lambda>cr. Answered ex_message),
      toHttpHeaders = (\<lambda>hs. map (\<lambda>kv. (fst kv, map snd (snd kv))) hs),
      URL_pathname = (\<lambda>u. Inr u),
      parseInt = (\<lambda>s. if s = ''200'' then Some 200 else None),
      asHttpHeaders = (\<lambda>h. []),
      convertToCloudFrontEvent = ex_convert,
      globToRegExp = ex_glob,
      load_request_handler = (\<lambda>p. Inr identityRequestHandler),
      load_response_handler = (\<lambda>p. Inr identityResponseHandler)\<rparr>"

definition ex_key :: "cf_event \<Rightarrow> string" where
  "ex_key ev = req_method (request ev) @ '' '' @ uri (request ev)"

definition ex_cache :: "((string \<times> cf_response) list, cf_response) cache_service" where
  "ex_cache =
     \<lparr>retrieveFromCache = (\<lambda>s ev. map_of s (ex_key ev)),
      saveToCache = (\<lambda>s ev. case response ev of None \<Rightarrow> s | Some r \<Rightarrow> AList.update (ex_key ev) r s),
      purge = (\<lambda>s. []),
      toResultResponse = (\<lambda>c. c)\<rparr>"

definition ex_response :: cf_response where
  "ex_response =
     \<lparr>status = ''200'', statusDescription = Some ''OK'', resp_headers = None,
      bodyEncoding = None, resp_body = Some ''generated''\<rparr>"

definition ex_event :: cf_event where
  "ex_event =
     \<lparr>request = \<lparr>req_method = ''GET'', uri = ''/index.html'', headers = [],
                 body = Some ''payload'', origin = None\<rparr>,
      response = None\<rparr>"

text \<open>A request handler that answers itself, one that fails, and a response handler
  that leaves its mark on the response.\<close>

definition ex_terminal :: request_handler where
  "ex_terminal ev = (ev, Resolved (ResponseResult ex_response))"

definition ex_failing :: "failure \<Rightarrow> request_handler" where
  "ex_failing e ev = (ev, Rejected e)"

definition ex_mark :: response_handler where
  "ex_mark ev =
     Resolved (map_option (\<lambda>r. r\<lparr>statusDescription := Some ''viewed''\<rparr>) (response ev))"

definition ex_fnSet :: "request_handler \<Rightarrow> request_handler \<Rightarrow> string \<Rightarrow> function_set" where
  "ex_fnSet vr oq target =
     \<lparr>pattern = ''*'', regex = (\<lambda>p. True),
      viewerRequest = vr, originRequest = oq,
      originResponse = identityResponseHandler, viewerResponse = ex_mark,
      fs_origin = Origin ex_env target None\<rparr>"

definition ex_lifecycle ::
  "bool \<Rightarrow> function_set \<Rightarrow> ((string \<times> cf_response) list, cf_response) lifecycle" where
  "ex_lifecycle off fs = \<lparr>disableCache = off, fileService = ex_cache, fnSet = fs\<rparr>"

text \<open>
  A service with one edge lambda bound to \<^verbatim>\<open>/api/*\<close> and one function that is no edge
  lambda, the registry built from it, and three inbound requests.
\<close>

definition ex_functions :: "(string \<times> serverless_function) list" where
  "ex_functions =
     [(''api'',
       \<lparr>handler = ''api.handler'',
        lambdaAtEdge = Some \<lparr>la_distribution = ''Site'', la_eventType = Some ViewerRequest,
                             la_pathPattern = ''/api/*''\<rparr>,
        events = []\<rparr>),
      (''job'', \<lparr>handler = ''job.handler'', lambdaAtEdge = None, events = []\<rparr>)]"

definition ex_behaviors :: behaviors where
  "ex_behaviors =
     (case extractBehaviors ex_env [] [] ex_functions of Inl e \<Rightarrow> [] | Inr bs \<Rightarrow> bs)"

definition ex_request :: "string option \<Rightarrow> incoming_request" where
  "ex_request u = \<lparr>in_method = Some ''GET'', in_url = u, in_headers = [], in_body = None\<rparr>"

text \<open>
  Two custom-origin configurations, one with a domain name and a port and one with
  nothing set; a router whose only function set rejects every request at the
  viewer-request stage; a response handler that rejects with the continuation signal;
  and a fresh response object.
\<close>

definition ex_config :: custom_config where
  "ex_config =
     \<lparr>cfg_customHeaders = None, cfg_domainName = Some (Str ''edge.test''),
      cfg_keepaliveTimeout = None, cfg_path = None, cfg_port = Some (Num 8443),
      cfg_protocol = None, cfg_readTimeout = None, cfg_sslProtocols = None\<rparr>"

definition ex_unset :: custom_config where
  "ex_unset =
     \<lparr>cfg_customHeaders = None, cfg_domainName = None,
      cfg_keepaliveTimeout = None, cfg_path = None, cfg_port = None,
      cfg_protocol = None, cfg_readTimeout = None, cfg_sslProtocols = None\<rparr>"

definition ex_router ::
  "failure \<Rightarrow> ((string \<times> cf_response) list, cf_response) behavior_router" where
  "ex_router e =
     \<lparr>rt_behaviors = [(''*'', ex_fnSet (ex_failing e) identityRequestHandler [])],
      rt_disableCache = True, rt_cacheService = ex_cache\<rparr>"

definition ex_signalling :: response_handler where
  "ex_signalling ev = Rejected NoResult"

definition ex_res :: server_response where
  "ex_res = \<lparr>statusCode = Some 200, statusMessage = [], res_headers = [], finished = NotEnded\<rparr>"

section \<open>How a run proceeds\<close>

text \<open>
  A stage that ends with anything but the continuation signal ends the run; the
  continuation signal hands over to the next stage.
\<close>

lemma run_viewer_stage:
  "onViewerRequest L st = (st1, p) \<Longrightarrow> p \<noteq> Rejected NoResult \<Longrightarrow> run E L st = (st1, p)"
  by (cases p) (simp_all add: run_def)

lemma run_cache_stage:
  "onViewerRequest L st = (st1, Rejected NoResult) \<Longrightarrow> onCache L st1 = (st2, p)
     \<Longrightarrow> p \<noteq> Rejected NoResult \<Longrightarrow> run E L st = (st2, p)"
  by (cases p) (simp_all add: run_def)

lemma run_origin_stage:
  "onViewerRequest L st = (st1, Rejected NoResult) \<Longrightarrow> onCache L st1 = (st2, Rejected NoResult)
     \<Longrightarrow> run E L st =
        (case onOriginRequest E L st2 of
           (st3, Resolved r) \<Rightarrow> run_finish L st3 r
         | (st3, Rejected e) \<Rightarrow> (st3, Rejected e)
         | (st3, Pending) \<Rightarrow> (st3, Pending))"
  by (simp add: run_def)

lemma onViewerRequest_terminal:
  "viewerRequest (fnSet L) (event st) = (ev1, Resolved (ResponseResult r)) \<Longrightarrow>
   onViewerRequest L st =
     (st\<lparr>event := ev1, trace := trace st @ [Invoke ViewerRequest, Invoke ViewerResponse]\<rparr>,
      viewerResponse (fnSet L) (combineResult ev1 (Some r)))"
  by (simp add: onViewerRequest_def onViewerResponse_def emit_def)

lemma onViewerRequest_continue:
  "viewerRequest (fnSet L) (event st) = (ev1, Resolved q) \<Longrightarrow> \<not> isResponseResult q \<Longrightarrow>
   onViewerRequest L st =
     (st\<lparr>event := ev1, trace := trace st @ [Invoke ViewerRequest]\<rparr>, Rejected NoResult)"
  by (simp add: onViewerRequest_def emit_def)

lemma onCache_disabled:
  "disableCache L \<Longrightarrow> onCache L st = (st, Rejected NoResult)"
  by (simp add: onCache_def)

lemma onCache_miss:
  "\<not> disableCache L \<Longrightarrow> retrieveFromCache (fileService L) (store st) (event st) = None \<Longrightarrow>
   onCache L st = (st\<lparr>trace := trace st @ [CacheLookup]\<rparr>, Rejected NoResult)"
  by (simp add: onCache_def emit_def)

lemma onCache_hit:
  "\<not> disableCache L \<Longrightarrow> retrieveFromCache (fileService L) (store st) (event st) = Some c \<Longrightarrow>
   onCache L st =
     (st\<lparr>trace := trace st @ [CacheLookup, Invoke ViewerResponse]\<rparr>,
      viewerResponse (fnSet L) (combineResult (event st) (Some (toResultResponse (fileService L) c))))"
  by (simp add: onCache_def onViewerResponse_def emit_def)

lemma onOriginRequest_terminal:
  "originRequest (fnSet L) (attach_custom_origin E (fs_origin (fnSet L)) (event st))
     = (ev2, Resolved (ResponseResult r)) \<Longrightarrow>
   onOriginRequest E L st =
     (st\<lparr>event := ev2, trace := trace st @ [Invoke OriginRequest]\<rparr>, Resolved (Some r))"
  by (simp add: onOriginRequest_def emit_def)

lemma run_finish_eq:
  "run_finish L st r =
     (st\<lparr>event := set_request_origin None (event st),
         store := saveToCache (fileService L) (store st)
                    (combineResult (set_request_origin None (event st)) r),
         trace := trace st @ [CacheWrite, Invoke ViewerResponse]\<rparr>,
      viewerResponse (fnSet L) (combineResult (set_request_origin None (event st)) r))"
  by (simp add: run_finish_def onViewerResponse_def emit_def)

text \<open>The stage after a request handler that continues: the fetch and the origin-response
  handler.\<close>

lemma onOriginRequest_continue:
  assumes "originRequest (fnSet L) (attach_custom_origin E (fs_origin (fnSet L)) (event st))
             = (ev2, Resolved q)"
    and "\<not> isResponseResult q"
  shows "onOriginRequest E L st =
     (case retrieve E (fs_origin (fnSet L)) ev2 of
        Resolved r2 \<Rightarrow>
          (st\<lparr>event := ev2,
              trace := trace st @ [Invoke OriginRequest, OriginFetch, Invoke OriginResponse]\<rparr>,
           originResponse (fnSet L) (combineResult ev2 (Some r2)))
      | Rejected e \<Rightarrow>
          (st\<lparr>event := ev2, trace := trace st @ [Invoke OriginRequest, OriginFetch]\<rparr>,
           Rejected e)
      | Pending \<Rightarrow>
          (st\<lparr>event := ev2, trace := trace st @ [Invoke OriginRequest, OriginFetch]\<rparr>,
           Pending))"
  using assms
  by (cases "retrieve E (fs_origin (fnSet L)) ev2")
     (simp_all add: onOriginRequest_def onOrigin_def onOriginResponse_def emit_def)

text \<open>A fetch that fails makes \<^verbatim>\<open>retrieve\<close> fail, with the error of the test.\<close>

lemma retrieve_failed:
  "getResource E this (request ev) = Rejected err \<Longrightarrow>
   retrieve E this ev = Rejected instanceof_TypeError"
  by (simp add: retrieve_def instanceof_notFound_def)

text \<open>The four ways in which the origin-request stage can end.\<close>

lemma onOriginRequest_cases:
  obtains
    (terminal) ev2 r where
      "onOriginRequest E L st =
         (st\<lparr>event := ev2, trace := trace st @ [Invoke OriginRequest]\<rparr>, Resolved (Some r))"
  | (handler_fails) ev2 p where
      "onOriginRequest E L st =
         (st\<lparr>event := ev2, trace := trace st @ [Invoke OriginRequest]\<rparr>, p)"
      "\<forall>v. p \<noteq> Resolved v"
  | (fetch_fails) ev2 p where
      "onOriginRequest E L st =
         (st\<lparr>event := ev2, trace := trace st @ [Invoke OriginRequest, OriginFetch]\<rparr>, p)"
      "\<forall>v. p \<noteq> Resolved v"
  | (round_trip) ev2 p where
      "onOriginRequest E L st =
         (st\<lparr>event := ev2,
             trace := trace st @ [Invoke OriginRequest, OriginFetch, Invoke OriginResponse]\<rparr>, p)"
proof -
  obtain ev2 out where h: "originRequest (fnSet L)
      (attach_custom_origin E (fs_origin (fnSet L)) (event st)) = (ev2, out)"
    by (cases "originRequest (fnSet L) (attach_custom_origin E (fs_origin (fnSet L)) (event st))")
  show thesis
  proof (cases out)
    case (Resolved q)
    show ?thesis
    proof (cases "isResponseResult q")
      case True
      then obtain r where "q = ResponseResult r" by (cases q) simp_all
      with h Resolved show ?thesis
        by (intro terminal [of ev2 r]) (simp add: onOriginRequest_terminal)
    next
      case False
      note c = onOriginRequest_continue [OF h [unfolded Resolved] False]
      show ?thesis
      proof (cases "retrieve E (fs_origin (fnSet L)) ev2")
        case (Resolved r2)
        with c show ?thesis
          by (intro round_trip [of ev2 "originResponse (fnSet L) (combineResult ev2 (Some r2))"])
             simp
      next
        case (Rejected e)
        with c show ?thesis by (intro fetch_fails [of ev2 "Rejected e"]) simp_all
      next
        case Pending
        with c show ?thesis by (intro fetch_fails [of ev2 Pending]) simp_all
      qed
    qed
  next
    case (Rejected e)
    with h show ?thesis
      by (intro handler_fails [of ev2 "Rejected e"]) (simp_all add: onOriginRequest_def emit_def)
  next
    case Pending
    with h show ?thesis
      by (intro handler_fails [of ev2 Pending]) (simp_all add: onOriginRequest_def emit_def)
  qed
qed

lemma onViewerRequest_effects:
  "onViewerRequest L st = (st1, p) \<Longrightarrow>
     store st1 = store st \<and> (CacheWrite \<in> set (trace st1) \<longleftrightarrow> CacheWrite \<in> set (trace st))"
  by (auto simp: onViewerRequest_def onViewerResponse_def emit_def Let_def
           split: prod.splits promise.splits if_splits)

lemma onCache_effects:
  "onCache L st = (st1, p) \<Longrightarrow>
     store st1 = store st \<and> (CacheWrite \<in> set (trace st1) \<longleftrightarrow> CacheWrite \<in> set (trace st))"
  by (auto simp: onCache_def onViewerResponse_def emit_def Let_def
           split: option.splits if_splits)

text \<open>
  Either a run writes nothing to the cache, or its calls end with the origin-request
  stage (with or without the round trip to the origin), the one cache write and the
  viewer-response stage.
\<close>

lemma run_write_cases:
  assumes "CacheWrite \<notin> set (trace st)"
  shows "(CacheWrite \<notin> set (trace (fst (run E L st))) \<and> store (fst (run E L st)) = store st)
       \<or> (\<exists>pre. CacheWrite \<notin> set pre
             \<and> (trace (fst (run E L st)) = pre @ [Invoke OriginRequest, CacheWrite, Invoke ViewerResponse]
                \<or> trace (fst (run E L st)) =
                     pre @ [Invoke OriginRequest, OriginFetch, Invoke OriginResponse,
                            CacheWrite, Invoke ViewerResponse]))"
proof -
  obtain st1 p1 where v: "onViewerRequest L st = (st1, p1)"
    by (cases "onViewerRequest L st")
  from onViewerRequest_effects [OF v] assms
  have e1: "store st1 = store st" "CacheWrite \<notin> set (trace st1)" by simp_all
  show ?thesis
  proof (cases "p1 = Rejected NoResult")
    case False
    from run_viewer_stage [OF v False] e1 show ?thesis by simp
  next
    case True
    obtain st2 p2 where c: "onCache L st1 = (st2, p2)"
      by (cases "onCache L st1")
    from onCache_effects [OF c] e1
    have e2: "store st2 = store st" "CacheWrite \<notin> set (trace st2)" by simp_all
    show ?thesis
    proof (cases "p2 = Rejected NoResult")
      case False
      from run_cache_stage [OF v [unfolded True] c False] e2 show ?thesis by simp
    next
      case p2: True
      note r = run_origin_stage [OF v [unfolded True] c [unfolded p2], of E]
      show ?thesis
      proof (cases rule: onOriginRequest_cases [of E L st2])
        case (terminal ev2 r2)
        with r e2 have "trace (fst (run E L st)) =
            trace st2 @ [Invoke OriginRequest, CacheWrite, Invoke ViewerResponse]"
          by (simp add: run_finish_eq)
        with e2 show ?thesis by blast
      next
        case (handler_fails ev2 p)
        with r e2 show ?thesis by (cases p) simp_all
      next
        case (fetch_fails ev2 p)
        with r e2 show ?thesis by (cases p) simp_all
      next
        case (round_trip ev2 p)
        show ?thesis
        proof (cases p)
          case (Resolved v)
          with round_trip r e2 have "trace (fst (run E L st)) =
              trace st2 @ [Invoke OriginRequest, OriginFetch, Invoke OriginResponse,
                           CacheWrite, Invoke ViewerResponse]"
            by (simp add: run_finish_eq)
          with e2 show ?thesis by blast
        next
          case (Rejected e)
          with round_trip r e2 show ?thesis by simp
        next
          case Pending
          with round_trip r e2 show ?thesis by simp
        qed
      qed
    qed
  qed
qed

lemma run_origin_trace:
  assumes v: "onViewerRequest L st = (st1, Rejected NoResult)"
    and c: "onCache L st1 = (st2, Rejected NoResult)"
  shows "\<exists>rest. trace (fst (run E L st)) = trace st2 @ Invoke OriginRequest # rest
              \<and> CacheLookup \<notin> set rest"
proof -
  note r = run_origin_stage [OF v c, of E]
  show ?thesis
  proof (cases rule: onOriginRequest_cases [of E L st2])
    case (terminal ev2 r2)
    with r show ?thesis by (simp add: run_finish_eq)
  next
    case (handler_fails ev2 p)
    with r show ?thesis by (cases p) simp_all
  next
    case (fetch_fails ev2 p)
    with r show ?thesis by (cases p) simp_all
  next
    case (round_trip ev2 p)
    with r show ?thesis by (cases p) (simp_all add: run_finish_eq)
  qed
qed

text \<open>The run of a request whose viewer-request handler answers itself.\<close>

lemma run_viewer_terminal:
  assumes "viewerRequest (fnSet L) ev = (ev1, Resolved (ResponseResult r))"
    and "viewerResponse (fnSet L) (combineResult ev1 (Some r)) \<noteq> Rejected NoResult"
  shows "run E L (start ev s) =
           (\<lparr>event = ev1, store = s, trace = [Invoke ViewerRequest, Invoke ViewerResponse]\<rparr>,
            viewerResponse (fnSet L) (combineResult ev1 (Some r)))"
proof -
  from assms(1) have "viewerRequest (fnSet L) (event (start ev s))
      = (ev1, Resolved (ResponseResult r))"
    by (simp add: start_def)
  from run_viewer_stage [OF onViewerRequest_terminal [OF this] assms(2)] show ?thesis
    by (simp add: start_def)
qed

text \<open>The state in which the viewer-request stage leaves a run that continues.\<close>

lemma viewer_continue_start:
  assumes "viewerRequest (fnSet L) ev = (ev1, Resolved q)" "\<not> isResponseResult q"
  shows "onViewerRequest L (start ev s) =
           (\<lparr>event = ev1, store = s, trace = [Invoke ViewerRequest]\<rparr>, Rejected NoResult)"
proof -
  from assms have "onViewerRequest L (start ev s) =
      ((start ev s)\<lparr>event := ev1, trace := trace (start ev s) @ [Invoke ViewerRequest]\<rparr>,
       Rejected NoResult)"
    by (intro onViewerRequest_continue) (simp_all add: start_def)
  then show ?thesis by (simp add: start_def)
qed

text \<open>The run of a request that is answered from the cache.\<close>

lemma run_cache_hit:
  assumes vr: "viewerRequest (fnSet L) ev = (ev1, Resolved q)" "\<not> isResponseResult q"
    and on: "\<not> disableCache L"
    and c: "retrieveFromCache (fileService L) s ev1 = Some c"
    and ok: "viewerResponse (fnSet L)
               (combineResult ev1 (Some (toResultResponse (fileService L) c)))
             \<noteq> Rejected NoResult"
  shows "run E L (start ev s) =
           (\<lparr>event = ev1, store = s,
             trace = [Invoke ViewerRequest, CacheLookup, Invoke ViewerResponse]\<rparr>,
            viewerResponse (fnSet L)
              (combineResult ev1 (Some (toResultResponse (fileService L) c))))"
proof -
  let ?st1 = "\<lparr>event = ev1, store = s, trace = [Invoke ViewerRequest]\<rparr>"
  note v = viewer_continue_start [OF vr, of s]
  from c have "retrieveFromCache (fileService L) (store ?st1) (event ?st1) = Some c"
    by simp
  from onCache_hit [OF on this] ok
  have "run E L (start ev s) =
      (?st1\<lparr>trace := trace ?st1 @ [CacheLookup, Invoke ViewerResponse]\<rparr>,
       viewerResponse (fnSet L)
         (combineResult ev1 (Some (toResultResponse (fileService L) c))))"
    by (intro run_cache_stage [OF v]) simp_all
  then show ?thesis by simp
qed

text \<open>
  The state in which the cache stage leaves a run that continues to the origin: the
  cache is disabled, or the lookup misses.
\<close>

lemma cache_continue:
  assumes "disableCache L \<or> retrieveFromCache (fileService L) s ev1 = None"
  shows "onCache L \<lparr>event = ev1, store = s, trace = [Invoke ViewerRequest]\<rparr> =
           (\<lparr>event = ev1, store = s,
             trace = Invoke ViewerRequest # (if disableCache L then [] else [CacheLookup])\<rparr>,
            Rejected NoResult)"
proof (cases "disableCache L")
  case True
  then show ?thesis by (simp add: onCache_disabled)
next
  case False
  let ?st1 = "\<lparr>event = ev1, store = s, trace = [Invoke ViewerRequest]\<rparr>"
  from False assms have "retrieveFromCache (fileService L) (store ?st1) (event ?st1) = None"
    by simp
  from onCache_miss [OF False this] False show ?thesis by simp
qed

section \<open>Runs of the concrete instances\<close>

lemmas lifecycle_defs =
  run_def onViewerRequest_def onViewerResponse_def onCache_def onOriginRequest_def
  onOrigin_def onOriginResponse_def run_finish_def emit_def start_def
  attach_custom_origin_def set_request_origin_def combineResult_def

lemmas ex_defs =
  ex_lifecycle_def ex_fnSet_def ex_terminal_def ex_failing_def ex_mark_def ex_cache_def
  ex_key_def ex_event_def ex_response_def identityRequestHandler_def
  identityResponseHandler_def

lemma ex_env_simps:
  "parse ex_env = ex_parse"
  "path_resolve ex_env = (\<lambda>p. ''/srv/'' @ p)"
  "path_join ex_env = (\<lambda>a b. a @ ''/'' @ b)"
  "readFile ex_env = (\<lambda>p. Resolved ''<html>'')"
  "send ex_env = (\<lambda>cr. Answered ex_message)"
  "toHttpHeaders ex_env = (\<lambda>hs. map (\<lambda>kv. (fst kv, map snd (snd kv))) hs)"
  "URL_pathname ex_env = (\<lambda>u. Inr u)"
  "parseInt ex_env = (\<lambda>s. if s = ''200'' then Some 200 else None)"
  "asHttpHeaders ex_env = (\<lambda>h. [])"
  "convertToCloudFrontEvent ex_env = ex_convert"
  "globToRegExp ex_env = ex_glob"
  "load_request_handler ex_env = (\<lambda>p. Inr identityRequestHandler)"
  "load_response_handler ex_env = (\<lambda>p. Inr identityResponseHandler)"
  by (simp_all add: ex_env_def)

lemma ex_origin_none:
  "Origin ex_env [] None = \<lparr>baseUrl = [], type = Noop, customOrigin = None\<rparr>"
  by (simp add: Origin_def)

text \<open>The origin-request handler answers itself; the cache is on and empty.\<close>

lemma ex_run_origin_terminal:
  "run ex_env (ex_lifecycle False (ex_fnSet identityRequestHandler ex_terminal []))
       (start ex_event [])
   = (\<lparr>event = ex_event,
       store = [(''GET /index.html'', ex_response)],
       trace = [Invoke ViewerRequest, CacheLookup, Invoke OriginRequest, CacheWrite,
                Invoke ViewerResponse]\<rparr>,
      Resolved (Some (ex_response\<lparr>statusDescription := Some ''viewed''\<rparr>)))"
  by (simp add: lifecycle_defs ex_defs ex_origin_none)

lemma ex_web_custom: "customOrigin (Origin E target None) = None"
  by (simp add: Origin_def)

text \<open>
  Nobody answers before the origin, and the origin is of kind none: the fetch fails, and
  so do \<^verbatim>\<open>retrieve\<close> and the run.
\<close>

lemma ex_retrieve_none:
  "getResource ex_env (Origin ex_env [] None) rq = Rejected NotFound"
  "retrieve ex_env (Origin ex_env [] None) ev = Rejected instanceof_TypeError"
  by (simp_all add: ex_origin_none retrieve_def getResource_def instanceof_notFound_def)

lemma ex_run_failed_fetch:
  "run ex_env (ex_lifecycle False (ex_fnSet identityRequestHandler identityRequestHandler []))
       (start ex_event [])
   = (\<lparr>event = ex_event, store = [],
       trace = [Invoke ViewerRequest, CacheLookup, Invoke OriginRequest, OriginFetch]\<rparr>,
      Rejected instanceof_TypeError)"
  by (simp add: lifecycle_defs ex_defs ex_web_custom ex_retrieve_none)

text \<open>The origin answers over http with status 200 and the body \<^verbatim>\<open>hello\<close>.\<close>

lemma decimal_examples:
  "decimal 0 = ''0''" "decimal 200 = ''200''"
  by code_simp+

lemma toLowerCase_example: "toLowerCase ''Content-Type'' = ''content-type''"
  by code_simp

lemma ex_retrieve_web:
  "getResource ex_env (Origin ex_env ''http://origin.test:8080'' None) (request ex_event) =
     Resolved \<lparr>rsc_headers = [(''Content-Type'', Single ''text/plain'')],
               rsc_statusCode = Some 200, rsc_data = ''hello''\<rparr>"
  "retrieve ex_env (Origin ex_env ''http://origin.test:8080'' None) ex_event =
     Resolved \<lparr>status = ''200'', statusDescription = Some [],
               resp_headers = Some [(''content-type'', [(''Content-Type'', ''text/plain'')])],
               bodyEncoding = Some ''text'', resp_body = Some ''hello''\<rparr>"
  by (simp_all add: retrieve_def getResource_def getHttpResource_def ex_env_simps
        ex_message_def Origin_def resource_response_def decimal_examples addHeader_def
        toLowerCase_example)

text \<open>
  The viewer-request handler answers itself, and the viewer-response handler rejects
  with the continuation signal.
\<close>

lemma ex_run_viewer_leak:
  "run ex_env
     (ex_lifecycle False
        ((ex_fnSet ex_terminal identityRequestHandler ''http://origin.test:8080'')
           \<lparr>viewerResponse := ex_signalling\<rparr>))
     (start ex_event [])
   = (\<lparr>event = ex_event,
       store = [(''GET /index.html'',
                 \<lparr>status = ''200'', statusDescription = Some [],
                  resp_headers = Some [(''content-type'', [(''Content-Type'', ''text/plain'')])],
                  bodyEncoding = Some ''text'', resp_body = Some ''hello''\<rparr>)],
       trace = [Invoke ViewerRequest, Invoke ViewerResponse, CacheLookup,
                Invoke OriginRequest, OriginFetch, Invoke OriginResponse, CacheWrite,
                Invoke ViewerResponse]\<rparr>,
      Rejected NoResult)"
  by (simp add: lifecycle_defs ex_defs ex_signalling_def ex_web_custom
        ex_retrieve_web(2) [unfolded ex_event_def])

text \<open>
  The cache holds a response for the request, and the viewer-response handler rejects
  with the continuation signal.
\<close>

lemma ex_run_hit_leak:
  "run ex_env
     (ex_lifecycle False
        ((ex_fnSet identityRequestHandler identityRequestHandler ''http://origin.test:8080'')
           \<lparr>viewerResponse := ex_signalling\<rparr>))
     (start ex_event [(''GET /index.html'', ex_response)])
   = (\<lparr>event = ex_event,
       store = [(''GET /index.html'',
                 \<lparr>status = ''200'', statusDescription = Some [],
                  resp_headers = Some [(''content-type'', [(''Content-Type'', ''text/plain'')])],
                  bodyEncoding = Some ''text'', resp_body = Some ''hello''\<rparr>)],
       trace = [Invoke ViewerRequest, CacheLookup, Invoke ViewerResponse,
                Invoke OriginRequest, OriginFetch, Invoke OriginResponse, CacheWrite,
                Invoke ViewerResponse]\<rparr>,
      Rejected NoResult)"
  by (simp add: lifecycle_defs ex_defs ex_signalling_def ex_web_custom
        ex_retrieve_web(2) [unfolded ex_event_def])


section \<open>The lifecycle: short circuits, cache stage, cache writes\<close>

text \<open>
  C1, as the code has it. When the viewer-request stage and the cache stage let the
  request through and the origin-request handler returns a response, the origin is not
  fetched and the origin-response handler is not invoked; but \<^verbatim>\<open>run\<close> does not return
  that response at once: it deletes the request's origin, writes the response to the
  cache, and returns what the viewer-response handler makes of it.
\<close>

theorem origin_request_short_circuit:
  assumes vr: "viewerRequest (fnSet L) ev = (ev1, Resolved q)" "\<not> isResponseResult q"
    and cache: "disableCache L \<or> retrieveFromCache (fileService L) s ev1 = None"
    and oq: "originRequest (fnSet L) (attach_custom_origin E (fs_origin (fnSet L)) ev1)
               = (ev2, Resolved (ResponseResult r))"
  shows "snd (run E L (start ev s))
           = viewerResponse (fnSet L) (combineResult (set_request_origin None ev2) (Some r))
       \<and> store (fst (run E L (start ev s)))
           = saveToCache (fileService L) s (combineResult (set_request_origin None ev2) (Some r))
       \<and> trace (fst (run E L (start ev s)))
           = Invoke ViewerRequest # (if disableCache L then [] else [CacheLookup])
               @ [Invoke OriginRequest, CacheWrite, Invoke ViewerResponse]
       \<and> OriginFetch \<notin> set (trace (fst (run E L (start ev s))))
       \<and> Invoke OriginResponse \<notin> set (trace (fst (run E L (start ev s))))"
proof -
  let ?st2 = "\<lparr>event = ev1, store = s,
               trace = Invoke ViewerRequest # (if disableCache L then [] else [CacheLookup])\<rparr>"
  note v = viewer_continue_start [OF vr, of s]
  note c = cache_continue [OF cache]
  from oq have "onOriginRequest E L ?st2 =
      (?st2\<lparr>event := ev2, trace := trace ?st2 @ [Invoke OriginRequest]\<rparr>, Resolved (Some r))"
    by (intro onOriginRequest_terminal) simp
  with run_origin_stage [OF v c, of E] show ?thesis
    by (simp add: run_finish_eq)
qed

theorem origin_request_short_circuit_witness:
  "viewerRequest (fnSet (ex_lifecycle False (ex_fnSet identityRequestHandler ex_terminal [])))
     ex_event = (ex_event, Resolved (RequestResult (request ex_event)))
 \<and> \<not> isResponseResult (RequestResult (request ex_event))
 \<and> retrieveFromCache
       (fileService (ex_lifecycle False (ex_fnSet identityRequestHandler ex_terminal [])))
       [] ex_event = None
 \<and> originRequest (fnSet (ex_lifecycle False (ex_fnSet identityRequestHandler ex_terminal [])))
       ex_event = (ex_event, Resolved (ResponseResult ex_response))
 \<and> snd (run ex_env (ex_lifecycle False (ex_fnSet identityRequestHandler ex_terminal []))
            (start ex_event []))
     = Resolved (Some (ex_response\<lparr>statusDescription := Some ''viewed''\<rparr>))
 \<and> store (fst (run ex_env (ex_lifecycle False (ex_fnSet identityRequestHandler ex_terminal []))
                   (start ex_event [])))
     = [(''GET /index.html'', ex_response)]
 \<and> trace (fst (run ex_env (ex_lifecycle False (ex_fnSet identityRequestHandler ex_terminal []))
                   (start ex_event [])))
     = [Invoke ViewerRequest, CacheLookup, Invoke OriginRequest, CacheWrite,
        Invoke ViewerResponse]"
proof -
  let ?L = "ex_lifecycle False (ex_fnSet identityRequestHandler ex_terminal [])"
  have h1: "viewerRequest (fnSet ?L) ex_event
              = (ex_event, Resolved (RequestResult (request ex_event)))"
    by (simp add: ex_defs)
  have h2: "\<not> isResponseResult (RequestResult (request ex_event))" by simp
  have h3: "disableCache ?L \<or> retrieveFromCache (fileService ?L) [] ex_event = None"
    by (simp add: ex_defs)
  have a: "attach_custom_origin ex_env (fs_origin (fnSet ?L)) ex_event = ex_event"
    by (simp add: attach_custom_origin_def ex_defs ex_origin_none)
  have h4: "originRequest (fnSet ?L) (attach_custom_origin ex_env (fs_origin (fnSet ?L)) ex_event)
              = (ex_event, Resolved (ResponseResult ex_response))"
    unfolding a by (simp add: ex_defs)
  from origin_request_short_circuit [OF h1 h2 h3 h4] h1 h3 h4 [unfolded a]
  show ?thesis
    by (simp add: ex_defs set_request_origin_def combineResult_def)
qed

text \<open>
  C1 as stated fails: with an origin-request handler that returns \<open>ex_response\<close>,
  \<^verbatim>\<open>run\<close> writes to the cache, invokes the viewer-response handler, and returns that
  handler's response, not \<open>ex_response\<close>.
\<close>

theorem origin_request_returns_at_once_counterexample:
  "originRequest (fnSet (ex_lifecycle False (ex_fnSet identityRequestHandler ex_terminal [])))
     ex_event = (ex_event, Resolved (ResponseResult ex_response))
 \<and> snd (run ex_env (ex_lifecycle False (ex_fnSet identityRequestHandler ex_terminal []))
            (start ex_event []))
     \<noteq> Resolved (Some ex_response)
 \<and> CacheWrite \<in> set (trace (fst (run ex_env
       (ex_lifecycle False (ex_fnSet identityRequestHandler ex_terminal []))
       (start ex_event []))))
 \<and> Invoke ViewerResponse \<in> set (trace (fst (run ex_env
       (ex_lifecycle False (ex_fnSet identityRequestHandler ex_terminal []))
       (start ex_event []))))"
  by (simp add: ex_run_origin_terminal) (simp add: ex_defs)

text \<open>
  C2, as the code has it. A cache write happens at most once, and only once the
  origin-request stage has produced a result, which is either the outcome of the
  origin-response handler after the fetch (a completed origin round trip) or the response
  of the origin-request handler itself, without any fetch; it is then the last call but
  one, followed by the viewer-response stage. Without a cache write the store is left as
  it was. There is no cache write when the viewer-request handler answers itself and
  none on a cache hit (in both cases for a viewer-response handler that does not reject
  with the engine's own continuation signal), none when the origin-request stage is
  rejected or never settles, and in particular none when the fetch fails.
\<close>

theorem cache_write_after_origin_stage:
  "(CacheWrite \<in> set (trace (fst (run E L (start ev s)))) \<longrightarrow>
      (\<exists>pre. CacheWrite \<notin> set pre
         \<and> (trace (fst (run E L (start ev s)))
              = pre @ [Invoke OriginRequest, CacheWrite, Invoke ViewerResponse]
            \<or> trace (fst (run E L (start ev s)))
              = pre @ [Invoke OriginRequest, OriginFetch, Invoke OriginResponse,
                       CacheWrite, Invoke ViewerResponse])))
 \<and> (CacheWrite \<notin> set (trace (fst (run E L (start ev s)))) \<longrightarrow>
      store (fst (run E L (start ev s))) = s)
 \<and> (\<forall>ev1 r. viewerRequest (fnSet L) ev = (ev1, Resolved (ResponseResult r))
        \<and> viewerResponse (fnSet L) (combineResult ev1 (Some r)) \<noteq> Rejected NoResult
      \<longrightarrow> CacheWrite \<notin> set (trace (fst (run E L (start ev s)))))
 \<and> (\<forall>ev1 q c. viewerRequest (fnSet L) ev = (ev1, Resolved q) \<and> \<not> isResponseResult q
        \<and> \<not> disableCache L \<and> retrieveFromCache (fileService L) s ev1 = Some c
        \<and> viewerResponse (fnSet L)
              (combineResult ev1 (Some (toResultResponse (fileService L) c)))
            \<noteq> Rejected NoResult
      \<longrightarrow> CacheWrite \<notin> set (trace (fst (run E L (start ev s)))))
 \<and> (\<forall>ev1 q st3 p. viewerRequest (fnSet L) ev = (ev1, Resolved q) \<and> \<not> isResponseResult q
        \<and> (disableCache L \<or> retrieveFromCache (fileService L) s ev1 = None)
        \<and> onOriginRequest E L
             \<lparr>event = ev1, store = s,
              trace = Invoke ViewerRequest # (if disableCache L then [] else [CacheLookup])\<rparr>
            = (st3, p)
        \<and> (\<forall>v. p \<noteq> Resolved v)
      \<longrightarrow> run E L (start ev s) = (st3, p) \<and> CacheWrite \<notin> set (trace st3) \<and> store st3 = s)
 \<and> (\<forall>ev1 q ev2 q2 err. viewerRequest (fnSet L) ev = (ev1, Resolved q) \<and> \<not> isResponseResult q
        \<and> (disableCache L \<or> retrieveFromCache (fileService L) s ev1 = None)
        \<and> originRequest (fnSet L) (attach_custom_origin E (fs_origin (fnSet L)) ev1)
            = (ev2, Resolved q2)
        \<and> \<not> isResponseResult q2
        \<and> getResource E (fs_origin (fnSet L)) (request ev2) = Rejected err
      \<longrightarrow> snd (run E L (start ev s)) = Rejected instanceof_TypeError
        \<and> CacheWrite \<notin> set (trace (fst (run E L (start ev s))))
        \<and> store (fst (run E L (start ev s))) = s)"
proof -
  have init: "CacheWrite \<notin> set (trace (start ev s))" "store (start ev s) = s"
    by (simp_all add: start_def)
  note w = run_write_cases [OF init(1), of E L, unfolded init(2)]
  have a: "CacheWrite \<in> set (trace (fst (run E L (start ev s)))) \<longrightarrow>
      (\<exists>pre. CacheWrite \<notin> set pre
         \<and> (trace (fst (run E L (start ev s)))
              = pre @ [Invoke OriginRequest, CacheWrite, Invoke ViewerResponse]
            \<or> trace (fst (run E L (start ev s)))
              = pre @ [Invoke OriginRequest, OriginFetch, Invoke OriginResponse,
                       CacheWrite, Invoke ViewerResponse]))"
    using w by blast
  have b: "CacheWrite \<notin> set (trace (fst (run E L (start ev s)))) \<longrightarrow>
      store (fst (run E L (start ev s))) = s"
    using w by auto
  have c: "CacheWrite \<notin> set (trace (fst (run E L (start ev s))))"
    if "viewerRequest (fnSet L) ev = (ev1, Resolved (ResponseResult r))"
      and "viewerResponse (fnSet L) (combineResult ev1 (Some r)) \<noteq> Rejected NoResult"
    for ev1 r
    using run_viewer_terminal [OF that, of E s] by simp
  have d: "CacheWrite \<notin> set (trace (fst (run E L (start ev s))))"
    if "viewerRequest (fnSet L) ev = (ev1, Resolved q)" "\<not> isResponseResult q"
      and "\<not> disableCache L" "retrieveFromCache (fileService L) s ev1 = Some c"
      and "viewerResponse (fnSet L)
              (combineResult ev1 (Some (toResultResponse (fileService L) c)))
            \<noteq> Rejected NoResult"
    for ev1 q c
    using run_cache_hit [OF that, of E] by simp
  have e: "run E L (start ev s) = (st3, p) \<and> CacheWrite \<notin> set (trace st3) \<and> store st3 = s"
    if vr: "viewerRequest (fnSet L) ev = (ev1, Resolved q)" "\<not> isResponseResult q"
      and cache: "disableCache L \<or> retrieveFromCache (fileService L) s ev1 = None"
      and oq: "onOriginRequest E L
             \<lparr>event = ev1, store = s,
              trace = Invoke ViewerRequest # (if disableCache L then [] else [CacheLookup])\<rparr>
            = (st3, p)"
      and fail: "\<forall>v. p \<noteq> Resolved v"
    for ev1 q st3 p
  proof -
    let ?st2 = "\<lparr>event = ev1, store = s,
              trace = Invoke ViewerRequest # (if disableCache L then [] else [CacheLookup])\<rparr>"
    note v = viewer_continue_start [OF vr, of s]
    note c = cache_continue [OF cache]
    from run_origin_stage [OF v c, of E] oq fail have r: "run E L (start ev s) = (st3, p)"
      by (cases p) simp_all
    have "CacheWrite \<notin> set (trace st3) \<and> store st3 = s"
    proof (cases rule: onOriginRequest_cases [of E L ?st2])
      case (terminal ev2 r2)
      with oq fail show ?thesis by auto
    next
      case (handler_fails ev2 p')
      with oq show ?thesis by (auto split: if_splits)
    next
      case (fetch_fails ev2 p')
      with oq show ?thesis by (auto split: if_splits)
    next
      case (round_trip ev2 p')
      with oq show ?thesis by (auto split: if_splits)
    qed
    with r show ?thesis by simp
  qed
  have f: "snd (run E L (start ev s)) = Rejected instanceof_TypeError
        \<and> CacheWrite \<notin> set (trace (fst (run E L (start ev s))))
        \<and> store (fst (run E L (start ev s))) = s"
    if vr: "viewerRequest (fnSet L) ev = (ev1, Resolved q)" "\<not> isResponseResult q"
      and cache: "disableCache L \<or> retrieveFromCache (fileService L) s ev1 = None"
      and oq: "originRequest (fnSet L) (attach_custom_origin E (fs_origin (fnSet L)) ev1)
            = (ev2, Resolved q2)" "\<not> isResponseResult q2"
      and fetch: "getResource E (fs_origin (fnSet L)) (request ev2) = Rejected err"
    for ev1 q ev2 q2 err
  proof -
    let ?st2 = "\<lparr>event = ev1, store = s,
              trace = Invoke ViewerRequest # (if disableCache L then [] else [CacheLookup])\<rparr>"
    from oq(1) have "originRequest (fnSet L)
        (attach_custom_origin E (fs_origin (fnSet L)) (event ?st2)) = (ev2, Resolved q2)"
      by simp
    from onOriginRequest_continue [OF this oq(2)] retrieve_failed [OF fetch]
    have o: "onOriginRequest E L ?st2 =
        (?st2\<lparr>event := ev2, trace := trace ?st2 @ [Invoke OriginRequest, OriginFetch]\<rparr>,
         Rejected instanceof_TypeError)"
      by simp
    have "\<forall>v. Rejected instanceof_TypeError \<noteq> (Resolved v :: cf_response option promise)"
      by simp
    from e [OF vr cache o this] show ?thesis by simp
  qed
  from a b c d e f show ?thesis by blast
qed

text \<open>The cache is on and holds a response for the request.\<close>

lemma ex_run_hit:
  "run ex_env (ex_lifecycle False (ex_fnSet identityRequestHandler identityRequestHandler []))
       (start ex_event [(''GET /index.html'', ex_response)])
   = (\<lparr>event = ex_event,
       store = [(''GET /index.html'', ex_response)],
       trace = [Invoke ViewerRequest, CacheLookup, Invoke ViewerResponse]\<rparr>,
      Resolved (Some (ex_response\<lparr>statusDescription := Some ''viewed''\<rparr>)))"
  by (simp add: lifecycle_defs ex_defs)

theorem cache_write_after_origin_stage_witness:
  "CacheWrite \<in> set (trace (fst (run ex_env
       (ex_lifecycle False (ex_fnSet identityRequestHandler ex_terminal []))
       (start ex_event []))))
 \<and> (\<exists>pre. CacheWrite \<notin> set pre
       \<and> (trace (fst (run ex_env
              (ex_lifecycle False (ex_fnSet identityRequestHandler ex_terminal []))
              (start ex_event [])))
            = pre @ [Invoke OriginRequest, CacheWrite, Invoke ViewerResponse]
          \<or> trace (fst (run ex_env
              (ex_lifecycle False (ex_fnSet identityRequestHandler ex_terminal []))
              (start ex_event [])))
            = pre @ [Invoke OriginRequest, OriginFetch, Invoke OriginResponse,
                     CacheWrite, Invoke ViewerResponse]))
 \<and> viewerRequest (fnSet (ex_lifecycle False (ex_fnSet ex_terminal identityRequestHandler [])))
       ex_event = (ex_event, Resolved (ResponseResult ex_response))
 \<and> viewerResponse (fnSet (ex_lifecycle False (ex_fnSet ex_terminal identityRequestHandler [])))
       (combineResult ex_event (Some ex_response)) \<noteq> Rejected NoResult
 \<and> CacheWrite \<notin> set (trace (fst (run ex_env
       (ex_lifecycle False (ex_fnSet ex_terminal identityRequestHandler []))
       (start ex_event []))))
 \<and> store (fst (run ex_env
       (ex_lifecycle False (ex_fnSet ex_terminal identityRequestHandler []))
       (start ex_event []))) = []
 \<and> retrieveFromCache
       (fileService (ex_lifecycle False (ex_fnSet identityRequestHandler identityRequestHandler [])))
       [(''GET /index.html'', ex_response)] ex_event = Some ex_response
 \<and> CacheWrite \<notin> set (trace (fst (run ex_env
       (ex_lifecycle False (ex_fnSet identityRequestHandler identityRequestHandler []))
       (start ex_event [(''GET /index.html'', ex_response)]))))
 \<and> onOriginRequest ex_env
       (ex_lifecycle True (ex_fnSet identityRequestHandler (ex_failing (Fault ''down'')) []))
       \<lparr>event = ex_event, store = [], trace = [Invoke ViewerRequest]\<rparr>
     = (\<lparr>event = ex_event, store = [],
          trace = [Invoke ViewerRequest, Invoke OriginRequest]\<rparr>, Rejected (Fault ''down''))
 \<and> run ex_env
       (ex_lifecycle True (ex_fnSet identityRequestHandler (ex_failing (Fault ''down'')) []))
       (start ex_event [])
     = (\<lparr>event = ex_event, store = [],
          trace = [Invoke ViewerRequest, Invoke OriginRequest]\<rparr>, Rejected (Fault ''down''))
 \<and> getResource ex_env
       (fs_origin (fnSet (ex_lifecycle False
          (ex_fnSet identityRequestHandler identityRequestHandler []))))
       (request ex_event) = Rejected NotFound
 \<and> snd (run ex_env
       (ex_lifecycle False (ex_fnSet identityRequestHandler identityRequestHandler []))
       (start ex_event [])) = Rejected instanceof_TypeError
 \<and> CacheWrite \<notin> set (trace (fst (run ex_env
       (ex_lifecycle False (ex_fnSet identityRequestHandler identityRequestHandler []))
       (start ex_event []))))
 \<and> store (fst (run ex_env
       (ex_lifecycle False (ex_fnSet identityRequestHandler identityRequestHandler []))
       (start ex_event []))) = []"
proof -
  let ?Lt = "ex_lifecycle False (ex_fnSet identityRequestHandler ex_terminal [])"
  let ?Lv = "ex_lifecycle False (ex_fnSet ex_terminal identityRequestHandler [])"
  let ?Lp = "ex_lifecycle False (ex_fnSet identityRequestHandler identityRequestHandler [])"
  let ?Lf = "ex_lifecycle True (ex_fnSet identityRequestHandler (ex_failing (Fault ''down'')) [])"
  let ?hit = "[(''GET /index.html'', ex_response)]"
  have w: "CacheWrite \<in> set (trace (fst (run ex_env ?Lt (start ex_event []))))"
    by (simp add: ex_run_origin_terminal)
  with cache_write_after_origin_stage [of ex_env ?Lt ex_event "[]"]
  have t1: "\<exists>pre. CacheWrite \<notin> set pre
       \<and> (trace (fst (run ex_env ?Lt (start ex_event [])))
            = pre @ [Invoke OriginRequest, CacheWrite, Invoke ViewerResponse]
          \<or> trace (fst (run ex_env ?Lt (start ex_event [])))
            = pre @ [Invoke OriginRequest, OriginFetch, Invoke OriginResponse,
                     CacheWrite, Invoke ViewerResponse])"
    by blast
  have v1: "viewerRequest (fnSet ?Lv) ex_event = (ex_event, Resolved (ResponseResult ex_response))"
    by (simp add: ex_defs)
  have v2: "viewerResponse (fnSet ?Lv) (combineResult ex_event (Some ex_response))
              \<noteq> Rejected NoResult"
    by (simp add: ex_defs combineResult_def)
  from cache_write_after_origin_stage [of ex_env ?Lv ex_event "[]"] v1 v2
  have t2: "CacheWrite \<notin> set (trace (fst (run ex_env ?Lv (start ex_event []))))"
    and t3: "store (fst (run ex_env ?Lv (start ex_event []))) = []"
    by blast+
  have p1: "viewerRequest (fnSet ?Lp) ex_event
              = (ex_event, Resolved (RequestResult (request ex_event)))"
    "\<not> isResponseResult (RequestResult (request ex_event))" "\<not> disableCache ?Lp"
    by (simp_all add: ex_defs)
  have p2: "retrieveFromCache (fileService ?Lp) ?hit ex_event = Some ex_response"
    by (simp add: ex_defs)
  have p3: "viewerResponse (fnSet ?Lp)
              (combineResult ex_event (Some (toResultResponse (fileService ?Lp) ex_response)))
            \<noteq> Rejected NoResult"
    by (simp add: ex_defs combineResult_def)
  from cache_write_after_origin_stage [of ex_env ?Lp ex_event ?hit] p1 p2 p3
  have t4: "CacheWrite \<notin> set (trace (fst (run ex_env ?Lp (start ex_event ?hit))))"
    by blast
  have f1: "viewerRequest (fnSet ?Lf) ex_event
              = (ex_event, Resolved (RequestResult (request ex_event)))"
    "disableCache ?Lf \<or> retrieveFromCache (fileService ?Lf) [] ex_event = None"
    by (simp_all add: ex_defs)
  have f2: "onOriginRequest ex_env ?Lf
       \<lparr>event = ex_event, store = [],
        trace = Invoke ViewerRequest # (if disableCache ?Lf then [] else [CacheLookup])\<rparr>
     = (\<lparr>event = ex_event, store = [],
          trace = [Invoke ViewerRequest, Invoke OriginRequest]\<rparr>, Rejected (Fault ''down''))"
    by (simp add: lifecycle_defs ex_defs ex_origin_none)
  have f3: "\<forall>v. Rejected (Fault ''down'') \<noteq> (Resolved v :: cf_response option promise)"
    by simp
  from cache_write_after_origin_stage [of ex_env ?Lf ex_event "[]"] f1 p1(2) f2 f3
  have t5: "run ex_env ?Lf (start ex_event [])
     = (\<lparr>event = ex_event, store = [],
          trace = [Invoke ViewerRequest, Invoke OriginRequest]\<rparr>, Rejected (Fault ''down''))"
    by blast
  have f2': "onOriginRequest ex_env ?Lf
       \<lparr>event = ex_event, store = [], trace = [Invoke ViewerRequest]\<rparr>
     = (\<lparr>event = ex_event, store = [],
          trace = [Invoke ViewerRequest, Invoke OriginRequest]\<rparr>, Rejected (Fault ''down''))"
    by (simp add: lifecycle_defs ex_defs ex_origin_none)
  have m1: "disableCache ?Lp \<or> retrieveFromCache (fileService ?Lp) [] ex_event = None"
    by (simp add: ex_defs)
  have m2: "originRequest (fnSet ?Lp)
              (attach_custom_origin ex_env (fs_origin (fnSet ?Lp)) ex_event)
            = (ex_event, Resolved (RequestResult (request ex_event)))"
    by (simp add: ex_defs attach_custom_origin_def ex_origin_none)
  have m3: "getResource ex_env (fs_origin (fnSet ?Lp)) (request ex_event) = Rejected NotFound"
    by (simp add: ex_defs ex_retrieve_none)
  from cache_write_after_origin_stage [of ex_env ?Lp ex_event "[]"] p1(1,2) m1 m2 m3
  have t6: "snd (run ex_env ?Lp (start ex_event [])) = Rejected instanceof_TypeError
          \<and> CacheWrite \<notin> set (trace (fst (run ex_env ?Lp (start ex_event []))))
          \<and> store (fst (run ex_env ?Lp (start ex_event []))) = []"
    by blast
  from w t1 v1 v2 t2 t3 p2 t4 f2' t5 m3 t6 show ?thesis by blast
qed

text \<open>
  C2 as stated fails. With an origin-request handler that answers itself the cache is
  written although the origin is never fetched. And when the viewer-request handler
  answers itself and the viewer-response handler rejects with the continuation signal,
  the run goes on to the origin and writes to the cache.
\<close>

theorem cache_write_without_round_trip_counterexample:
  "CacheWrite \<in> set (trace (fst (run ex_env
       (ex_lifecycle False (ex_fnSet identityRequestHandler ex_terminal []))
       (start ex_event []))))
 \<and> OriginFetch \<notin> set (trace (fst (run ex_env
       (ex_lifecycle False (ex_fnSet identityRequestHandler ex_terminal []))
       (start ex_event []))))
 \<and> viewerRequest
       (fnSet (ex_lifecycle False
          ((ex_fnSet ex_terminal identityRequestHandler ''http://origin.test:8080'')
             \<lparr>viewerResponse := ex_signalling\<rparr>)))
       ex_event = (ex_event, Resolved (ResponseResult ex_response))
 \<and> CacheWrite \<in> set (trace (fst (run ex_env
       (ex_lifecycle False
          ((ex_fnSet ex_terminal identityRequestHandler ''http://origin.test:8080'')
             \<lparr>viewerResponse := ex_signalling\<rparr>))
       (start ex_event []))))"
  by (simp add: ex_run_origin_terminal ex_run_viewer_leak) (simp add: ex_defs)

text \<open>
  What holds of the short circuit at the viewer-request stage and of the cache stage
  when the viewer-response handler does not reject with the continuation signal: a
  viewer-request handler that answers itself leads straight to the viewer-response
  stage (lemma \<open>run_viewer_terminal\<close>), and for a request that the viewer-request
  stage lets through the cache stage is skipped, answers from the cache, or hands over
  to the origin-request stage.
\<close>

lemma cache_stage_outcomes:
  assumes vr: "viewerRequest (fnSet L) ev = (ev1, Resolved q)" "\<not> isResponseResult q"
  shows "(disableCache L \<longrightarrow>
            CacheLookup \<notin> set (trace (fst (run E L (start ev s))))
          \<and> (\<exists>rest. trace (fst (run E L (start ev s)))
                       = [Invoke ViewerRequest, Invoke OriginRequest] @ rest))
       \<and> (\<not> disableCache L \<longrightarrow>
            (\<forall>c. retrieveFromCache (fileService L) s ev1 = Some c
                 \<and> viewerResponse (fnSet L)
                       (combineResult ev1 (Some (toResultResponse (fileService L) c)))
                     \<noteq> Rejected NoResult
               \<longrightarrow> snd (run E L (start ev s))
                     = viewerResponse (fnSet L)
                         (combineResult ev1 (Some (toResultResponse (fileService L) c)))
                 \<and> trace (fst (run E L (start ev s)))
                     = [Invoke ViewerRequest, CacheLookup, Invoke ViewerResponse]
                 \<and> OriginFetch \<notin> set (trace (fst (run E L (start ev s)))))
          \<and> (retrieveFromCache (fileService L) s ev1 = None
               \<longrightarrow> (\<exists>rest. trace (fst (run E L (start ev s)))
                       = [Invoke ViewerRequest, CacheLookup, Invoke OriginRequest] @ rest)))"
proof -
  note v = viewer_continue_start [OF vr, of s]
  have off: "CacheLookup \<notin> set (trace (fst (run E L (start ev s))))
          \<and> (\<exists>rest. trace (fst (run E L (start ev s)))
                       = [Invoke ViewerRequest, Invoke OriginRequest] @ rest)"
    if "disableCache L"
  proof -
    from that have "disableCache L \<or> retrieveFromCache (fileService L) s ev1 = None" ..
    from run_origin_trace [OF v cache_continue [OF this], of E] that show ?thesis
      by auto
  qed
  have hit: "snd (run E L (start ev s))
               = viewerResponse (fnSet L)
                   (combineResult ev1 (Some (toResultResponse (fileService L) c)))
           \<and> trace (fst (run E L (start ev s)))
               = [Invoke ViewerRequest, CacheLookup, Invoke ViewerResponse]
           \<and> OriginFetch \<notin> set (trace (fst (run E L (start ev s))))"
    if "\<not> disableCache L"
      and "retrieveFromCache (fileService L) s ev1 = Some c"
      and "viewerResponse (fnSet L)
                 (combineResult ev1 (Some (toResultResponse (fileService L) c)))
               \<noteq> Rejected NoResult"
    for c
    using run_cache_hit [OF vr that, of E] by simp
  have miss: "\<exists>rest. trace (fst (run E L (start ev s)))
                       = [Invoke ViewerRequest, CacheLookup, Invoke OriginRequest] @ rest"
    if on: "\<not> disableCache L" and m: "retrieveFromCache (fileService L) s ev1 = None"
  proof -
    from m have "disableCache L \<or> retrieveFromCache (fileService L) s ev1 = None" ..
    from run_origin_trace [OF v cache_continue [OF this], of E] on show ?thesis
      by auto
  qed
  from off hit miss show ?thesis by blast
qed

text \<open>After the continuation signal of the viewer-request stage, with the cache enabled.\<close>

lemma run_cache_lookup:
  assumes v: "onViewerRequest L st = (st1, Rejected NoResult)"
    and on: "\<not> disableCache L"
  shows "\<exists>rest. trace (fst (run E L st)) = trace st1 @ CacheLookup # rest"
proof (cases "retrieveFromCache (fileService L) (store st1) (event st1)")
  case None
  from run_origin_trace [OF v onCache_miss [OF on None], of E] show ?thesis by auto
next
  case (Some c)
  let ?st2 = "st1\<lparr>trace := trace st1 @ [CacheLookup, Invoke ViewerResponse]\<rparr>"
  let ?p = "viewerResponse (fnSet L)
              (combineResult (event st1) (Some (toResultResponse (fileService L) c)))"
  note h = onCache_hit [OF on Some]
  show ?thesis
  proof (cases "?p = Rejected NoResult")
    case True
    with h have "onCache L st1 = (?st2, Rejected NoResult)" by simp
    from run_origin_trace [OF v this, of E] show ?thesis by auto
  next
    case False
    from run_cache_stage [OF v h False, of E] show ?thesis by simp
  qed
qed

text \<open>
  C3, where the code departs from it. The viewer-request handler returns a response and
  the viewer-response handler, invoked on it, rejects with \<open>NoResult\<close>. The
  \<^verbatim>\<open>try\<close> block of \<^verbatim>\<open>run\<close> around \<^verbatim>\<open>onViewerRequest\<close> takes this for the
  continuation signal of the viewer-request stage: the run goes on with the cache
  lookup, or with the origin-request stage when the cache is disabled.
\<close>

theorem viewer_response_signal_leak:
  assumes "viewerRequest (fnSet L) ev = (ev1, Resolved (ResponseResult r))"
    and "viewerResponse (fnSet L) (combineResult ev1 (Some r)) = Rejected NoResult"
  shows "(\<not> disableCache L \<longrightarrow>
            (\<exists>rest. trace (fst (run E L (start ev s)))
               = [Invoke ViewerRequest, Invoke ViewerResponse, CacheLookup] @ rest))
       \<and> (disableCache L \<longrightarrow>
            (\<exists>rest. trace (fst (run E L (start ev s)))
               = [Invoke ViewerRequest, Invoke ViewerResponse, Invoke OriginRequest] @ rest))"
proof -
  let ?st1 = "\<lparr>event = ev1, store = s,
               trace = [Invoke ViewerRequest, Invoke ViewerResponse]\<rparr>"
  from assms(1) have "viewerRequest (fnSet L) (event (start ev s))
      = (ev1, Resolved (ResponseResult r))"
    by (simp add: start_def)
  from onViewerRequest_terminal [OF this] assms(2)
  have v: "onViewerRequest L (start ev s) = (?st1, Rejected NoResult)"
    by (simp add: start_def)
  have on: "\<exists>rest. trace (fst (run E L (start ev s)))
               = [Invoke ViewerRequest, Invoke ViewerResponse, CacheLookup] @ rest"
    if "\<not> disableCache L"
    using run_cache_lookup [OF v that, of E] by simp
  have off: "\<exists>rest. trace (fst (run E L (start ev s)))
               = [Invoke ViewerRequest, Invoke ViewerResponse, Invoke OriginRequest] @ rest"
    if "disableCache L"
    using run_origin_trace [OF v onCache_disabled [OF that], of E] by auto
  from on off show ?thesis by blast
qed

theorem viewer_response_signal_leak_witness:
  "viewerRequest
     (fnSet (ex_lifecycle False
        ((ex_fnSet ex_terminal identityRequestHandler ''http://origin.test:8080'')
           \<lparr>viewerResponse := ex_signalling\<rparr>)))
     ex_event = (ex_event, Resolved (ResponseResult ex_response))
 \<and> viewerResponse
     (fnSet (ex_lifecycle False
        ((ex_fnSet ex_terminal identityRequestHandler ''http://origin.test:8080'')
           \<lparr>viewerResponse := ex_signalling\<rparr>)))
     (combineResult ex_event (Some ex_response)) = Rejected NoResult
 \<and> (\<exists>rest. trace (fst (run ex_env
        (ex_lifecycle False
           ((ex_fnSet ex_terminal identityRequestHandler ''http://origin.test:8080'')
              \<lparr>viewerResponse := ex_signalling\<rparr>))
        (start ex_event [])))
      = [Invoke ViewerRequest, Invoke ViewerResponse, CacheLookup] @ rest)
 \<and> trace (fst (run ex_env
        (ex_lifecycle False
           ((ex_fnSet ex_terminal identityRequestHandler ''http://origin.test:8080'')
              \<lparr>viewerResponse := ex_signalling\<rparr>))
        (start ex_event [])))
      = [Invoke ViewerRequest, Invoke ViewerResponse, CacheLookup, Invoke OriginRequest,
         OriginFetch, Invoke OriginResponse, CacheWrite, Invoke ViewerResponse]
 \<and> snd (run ex_env
        (ex_lifecycle False
           ((ex_fnSet ex_terminal identityRequestHandler ''http://origin.test:8080'')
              \<lparr>viewerResponse := ex_signalling\<rparr>))
        (start ex_event [])) = Rejected NoResult"
proof -
  let ?L = "ex_lifecycle False
        ((ex_fnSet ex_terminal identityRequestHandler ''http://origin.test:8080'')
           \<lparr>viewerResponse := ex_signalling\<rparr>)"
  have h1: "viewerRequest (fnSet ?L) ex_event = (ex_event, Resolved (ResponseResult ex_response))"
    by (simp add: ex_defs)
  have h2: "viewerResponse (fnSet ?L) (combineResult ex_event (Some ex_response))
              = Rejected NoResult"
    by (simp add: ex_defs ex_signalling_def)
  have on: "\<not> disableCache ?L" by (simp add: ex_defs)
  from viewer_response_signal_leak [OF h1 h2, of ex_env "[]"] on
  have t: "\<exists>rest. trace (fst (run ex_env ?L (start ex_event [])))
      = [Invoke ViewerRequest, Invoke ViewerResponse, CacheLookup] @ rest"
    by blast
  from h1 h2 t show ?thesis by (simp add: ex_run_viewer_leak)
qed

text \<open>
  C4, where the code departs from it. The request passes the viewer-request stage, the
  cache is enabled and holds an entry for it, and the viewer-response handler, invoked
  on the response made from the entry, rejects with \<open>NoResult\<close>. The \<^verbatim>\<open>try\<close>
  block of \<^verbatim>\<open>run\<close> around \<^verbatim>\<open>onCache\<close> takes this for a cache miss: the hit is
  followed by the origin-request stage.
\<close>

theorem cache_hit_signal_leak:
  assumes vr: "viewerRequest (fnSet L) ev = (ev1, Resolved q)" "\<not> isResponseResult q"
    and on: "\<not> disableCache L"
    and hit: "retrieveFromCache (fileService L) s ev1 = Some c"
    and leak: "viewerResponse (fnSet L)
                 (combineResult ev1 (Some (toResultResponse (fileService L) c)))
               = Rejected NoResult"
  shows "\<exists>rest. trace (fst (run E L (start ev s)))
           = [Invoke ViewerRequest, CacheLookup, Invoke ViewerResponse, Invoke OriginRequest]
               @ rest"
proof -
  let ?st1 = "\<lparr>event = ev1, store = s, trace = [Invoke ViewerRequest]\<rparr>"
  note v = viewer_continue_start [OF vr, of s]
  from hit have "retrieveFromCache (fileService L) (store ?st1) (event ?st1) = Some c"
    by simp
  from onCache_hit [OF on this] leak
  have "onCache L ?st1 =
      (?st1\<lparr>trace := trace ?st1 @ [CacheLookup, Invoke ViewerResponse]\<rparr>, Rejected NoResult)"
    by simp
  from run_origin_trace [OF v this, of E] show ?thesis by auto
qed

theorem cache_hit_signal_leak_witness:
  "viewerRequest
     (fnSet (ex_lifecycle False
        ((ex_fnSet identityRequestHandler identityRequestHandler ''http://origin.test:8080'')
           \<lparr>viewerResponse := ex_signalling\<rparr>)))
     ex_event = (ex_event, Resolved (RequestResult (request ex_event)))
 \<and> \<not> isResponseResult (RequestResult (request ex_event))
 \<and> retrieveFromCache
     (fileService (ex_lifecycle False
        ((ex_fnSet identityRequestHandler identityRequestHandler ''http://origin.test:8080'')
           \<lparr>viewerResponse := ex_signalling\<rparr>)))
     [(''GET /index.html'', ex_response)] ex_event = Some ex_response
 \<and> (\<exists>rest. trace (fst (run ex_env
        (ex_lifecycle False
           ((ex_fnSet identityRequestHandler identityRequestHandler ''http://origin.test:8080'')
              \<lparr>viewerResponse := ex_signalling\<rparr>))
        (start ex_event [(''GET /index.html'', ex_response)])))
      = [Invoke ViewerRequest, CacheLookup, Invoke ViewerResponse, Invoke OriginRequest] @ rest)
 \<and> OriginFetch \<in> set (trace (fst (run ex_env
        (ex_lifecycle False
           ((ex_fnSet identityRequestHandler identityRequestHandler ''http://origin.test:8080'')
              \<lparr>viewerResponse := ex_signalling\<rparr>))
        (start ex_event [(''GET /index.html'', ex_response)]))))
 \<and> snd (run ex_env
        (ex_lifecycle False
           ((ex_fnSet identityRequestHandler identityRequestHandler ''http://origin.test:8080'')
              \<lparr>viewerResponse := ex_signalling\<rparr>))
        (start ex_event [(''GET /index.html'', ex_response)])) = Rejected NoResult"
proof -
  let ?L = "ex_lifecycle False
        ((ex_fnSet identityRequestHandler identityRequestHandler ''http://origin.test:8080'')
           \<lparr>viewerResponse := ex_signalling\<rparr>)"
  let ?hit = "[(''GET /index.html'', ex_response)]"
  have h1: "viewerRequest (fnSet ?L) ex_event
              = (ex_event, Resolved (RequestResult (request ex_event)))"
    by (simp add: ex_defs)
  have h2: "\<not> isResponseResult (RequestResult (request ex_event))" by simp
  have h3: "\<not> disableCache ?L" by (simp add: ex_defs)
  have h4: "retrieveFromCache (fileService ?L) ?hit ex_event = Some ex_response"
    by (simp add: ex_defs)
  have h5: "viewerResponse (fnSet ?L)
              (combineResult ex_event (Some (toResultResponse (fileService ?L) ex_response)))
            = Rejected NoResult"
    by (simp add: ex_defs ex_signalling_def)
  note t = cache_hit_signal_leak [OF h1 h2 h3 h4 h5, of ex_env]
  from h1 h2 h4 t show ?thesis by (simp add: ex_run_hit_leak)
qed

section \<open>Fetching from the origin\<close>

lemma on_response_data:
  "on_response res acc (map Data chunks @ es) = on_response res (acc @ chunks) es"
  by (induction chunks arbitrary: acc) simp_all

lemma on_response_data_only:
  "on_response res acc (map Data chunks) = Pending"
  using on_response_data [of res acc chunks "[]"] by simp

lemma http_options_body:
  "http_options E this (rq\<lparr>body := b\<rparr>) = http_options E this rq"
  by (simp add: http_options_def Let_def split: option.splits cf_origin.splits)

lemma ex_http_request:
  "getHttpResource_request ex_env (Origin ex_env ''http://origin.test:8080'' None)
     (request ex_event)
   = \<lparr>use_https = False,
      options =
        \<lparr>opt_method = ''GET'', opt_protocol = Some ''http:'',
         opt_hostname = Str ''origin.test'', opt_port = Str ''8080'',
         opt_path = Some ''/index.html'',
         opt_headers = [(''connection'', HString ''Close'')]\<rparr>,
      written = []\<rparr>"
  by (simp add: getHttpResource_request_def http_options_def Origin_def ex_env_simps
        ex_parse_def ex_event_def outgoing_headers_def of_nullable_def Let_def)

text \<open>
  C5, where the code departs from it. A fetch from an origin of kind none is rejected
  with NotFound, as stated. But \<^verbatim>\<open>retrieve\<close> classifies no failed fetch: the test in
  its \<^verbatim>\<open>catch\<close> block throws, so that for every rejected fetch, with NotFound or
  with anything else, \<^verbatim>\<open>retrieve\<close> is rejected with that \<^verbatim>\<open>TypeError\<close> and makes
  neither the response with status 404 nor the one with status 500; and while the fetch
  is not settled, neither is \<^verbatim>\<open>retrieve\<close>. From a fetched resource it makes the
  response with the resource's status code, headers and data, and the lifecycle hands
  that response as it is to the origin-response handler.
\<close>

theorem failed_fetch_rejects:
  "(type this = Noop \<longrightarrow>
      getResource E this (request ev) = Rejected NotFound
    \<and> retrieve E this ev = Rejected instanceof_TypeError)
 \<and> (\<forall>err. getResource E this (request ev) = Rejected err \<longrightarrow>
      retrieve E this ev = Rejected instanceof_TypeError)
 \<and> (getResource E this (request ev) = Pending \<longrightarrow> retrieve E this ev = Pending)
 \<and> (\<forall>r. getResource E this (request ev) = Resolved r \<longrightarrow>
      retrieve E this ev =
        Resolved \<lparr>status = decimal (case rsc_statusCode r of None \<Rightarrow> 0 | Some c \<Rightarrow> c),
                  statusDescription = Some [],
                  resp_headers = Some (foldl addHeader [] (rsc_headers r)),
                  bodyEncoding = Some ''text'',
                  resp_body = Some (rsc_data r)\<rparr>)
 \<and> (\<forall>ev2 q r2. originRequest (fnSet L) (attach_custom_origin E (fs_origin (fnSet L)) (event st))
                   = (ev2, Resolved q)
        \<and> \<not> isResponseResult q \<and> retrieve E (fs_origin (fnSet L)) ev2 = Resolved r2 \<longrightarrow>
      snd (onOriginRequest E L st) = originResponse (fnSet L) (combineResult ev2 (Some r2)))"
proof -
  have a: "getResource E this (request ev) = Rejected NotFound" if "type this = Noop"
    using that by (simp add: getResource_def)
  have b: "retrieve E this ev = Rejected instanceof_TypeError"
    if "getResource E this (request ev) = Rejected err" for err
    using that by (rule retrieve_failed)
  have c: "retrieve E this ev = Pending" if "getResource E this (request ev) = Pending"
    using that by (simp add: retrieve_def)
  have d: "retrieve E this ev = Resolved (resource_response r)"
    if "getResource E this (request ev) = Resolved r" for r
    using that by (simp add: retrieve_def)
  have e: "snd (onOriginRequest E L st) = originResponse (fnSet L) (combineResult ev2 (Some r2))"
    if "originRequest (fnSet L) (attach_custom_origin E (fs_origin (fnSet L)) (event st))
          = (ev2, Resolved q)"
      and "\<not> isResponseResult q" and "retrieve E (fs_origin (fnSet L)) ev2 = Resolved r2"
    for ev2 q r2
    using onOriginRequest_continue [OF that(1,2)] that(3) by simp
  show ?thesis
    using a b [OF a] b c d e
    by (simp add: resource_response_def)
qed

theorem failed_fetch_rejects_witness:
  "type (Origin ex_env [] None) = Noop
 \<and> getResource ex_env (Origin ex_env [] None) (request ex_event) = Rejected NotFound
 \<and> retrieve ex_env (Origin ex_env [] None) ex_event = Rejected instanceof_TypeError
 \<and> getResource (ex_env\<lparr>readFile := \<lambda>p. Rejected (Fault ''EACCES'')\<rparr>)
       (Origin ex_env ''public'' None) (request ex_event) = Rejected (Fault ''EACCES'')
 \<and> retrieve (ex_env\<lparr>readFile := \<lambda>p. Rejected (Fault ''EACCES'')\<rparr>)
       (Origin ex_env ''public'' None) ex_event = Rejected instanceof_TypeError
 \<and> getResource ex_env (Origin ex_env ''http://origin.test:8080'' None) (request ex_event) =
      Resolved \<lparr>rsc_headers = [(''Content-Type'', Single ''text/plain'')],
                rsc_statusCode = Some 200, rsc_data = ''hello''\<rparr>
 \<and> retrieve ex_env (Origin ex_env ''http://origin.test:8080'' None) ex_event =
      Resolved \<lparr>status = ''200'', statusDescription = Some [],
                resp_headers = Some [(''content-type'', [(''Content-Type'', ''text/plain'')])],
                bodyEncoding = Some ''text'', resp_body = Some ''hello''\<rparr>
 \<and> snd (onOriginRequest ex_env
       (ex_lifecycle True
          (ex_fnSet identityRequestHandler identityRequestHandler ''http://origin.test:8080''))
       (start ex_event []))
     = Resolved (Some \<lparr>status = ''200'', statusDescription = Some [],
                resp_headers = Some [(''content-type'', [(''Content-Type'', ''text/plain'')])],
                bodyEncoding = Some ''text'', resp_body = Some ''hello''\<rparr>)
 \<and> snd (run ex_env
       (ex_lifecycle False (ex_fnSet identityRequestHandler identityRequestHandler []))
       (start ex_event [])) = Rejected instanceof_TypeError"
proof -
  let ?down = "ex_env\<lparr>readFile := \<lambda>p. Rejected (Fault ''EACCES'')\<rparr>"
  let ?web = "Origin ex_env ''http://origin.test:8080'' None"
  let ?L = "ex_lifecycle True
          (ex_fnSet identityRequestHandler identityRequestHandler ''http://origin.test:8080'')"
  let ?ok = "\<lparr>status = ''200'', statusDescription = Some [],
                resp_headers = Some [(''content-type'', [(''Content-Type'', ''text/plain'')])],
                bodyEncoding = Some ''text'', resp_body = Some ''hello''\<rparr>"
  have n: "type (Origin ex_env [] None) = Noop" by (simp add: ex_origin_none)
  note t1 = failed_fetch_rejects [of "Origin ex_env [] None" ex_env ex_event]
  from t1 n have n1: "getResource ex_env (Origin ex_env [] None) (request ex_event)
                        = Rejected NotFound"
    and n2: "retrieve ex_env (Origin ex_env [] None) ex_event = Rejected instanceof_TypeError"
    by blast+
  have f: "getResource ?down (Origin ex_env ''public'' None) (request ex_event)
             = Rejected (Fault ''EACCES'')"
    by (simp add: getResource_def getFileResource_def Origin_def)
  note t2 = failed_fetch_rejects [of "Origin ex_env ''public'' None" ?down ex_event]
  from t2 f have f1: "retrieve ?down (Origin ex_env ''public'' None) ex_event
                        = Rejected instanceof_TypeError"
    by blast
  have g: "getResource ex_env ?web (request ex_event) =
      Resolved \<lparr>rsc_headers = [(''Content-Type'', Single ''text/plain'')],
                rsc_statusCode = Some 200, rsc_data = ''hello''\<rparr>"
    by (simp add: getResource_def getHttpResource_def ex_env_simps ex_message_def Origin_def)
  note t3 = failed_fetch_rejects [of ?web ex_env ex_event ?L "start ex_event []"]
  from t3 g have g1: "retrieve ex_env ?web ex_event = Resolved ?ok"
    by (simp add: decimal_examples addHeader_def toLowerCase_example)
  have o: "fs_origin (fnSet ?L) = ?web" by (simp add: ex_defs)
  have h: "originRequest (fnSet ?L)
             (attach_custom_origin ex_env (fs_origin (fnSet ?L)) (event (start ex_event [])))
           = (ex_event, Resolved (RequestResult (request ex_event)))"
    by (simp add: ex_defs attach_custom_origin_def Origin_def start_def)
  have r: "retrieve ex_env (fs_origin (fnSet ?L)) ex_event = Resolved ?ok"
    unfolding o by (rule g1)
  have q: "\<not> isResponseResult (RequestResult (request ex_event))" by simp
  from t3 h q r
  have "snd (onOriginRequest ex_env ?L (start ex_event []))
          = originResponse (fnSet ?L) (combineResult ex_event (Some ?ok))"
    by blast
  then have l: "snd (onOriginRequest ex_env ?L (start ex_event [])) = Resolved (Some ?ok)"
    by (simp add: ex_defs combineResult_def)
  have k: "snd (run ex_env
       (ex_lifecycle False (ex_fnSet identityRequestHandler identityRequestHandler []))
       (start ex_event [])) = Rejected instanceof_TypeError"
    by (simp add: ex_run_failed_fetch)
  from n n1 n2 f f1 g g1 l k show ?thesis by blast
qed

text \<open>
  C7. For an origin of kind http or https the fetch is the request handed to the
  network. When the request carries no custom origin, its protocol, host name and port
  are those of the origin's own target, with port 443 for the protocol \<^verbatim>\<open>https:\<close> and
  80 otherwise when the target names no port. When the request carries a custom origin,
  they are the protocol, domain name and port of the custom origin instead (with the same
  default when its port is unset), sent with the https module exactly when the custom
  protocol starts with \<^verbatim>\<open>https\<close>.
\<close>

theorem http_fetch_target:
  assumes "type this = Http \<or> type this = Https"
  shows "getResource E this rq =
           (case send E (getHttpResource_request E this rq) of
              Thrown err \<Rightarrow> Rejected err
            | Unanswered \<Rightarrow> Pending
            | Answered res \<Rightarrow> on_response res [] (im_events res))
       \<and> ((\<forall>c. origin rq \<noteq> Some (Custom c)) \<longrightarrow>
            opt_protocol (options (getHttpResource_request E this rq))
              = url_protocol (parse E (baseUrl this))
          \<and> opt_hostname (options (getHttpResource_request E this rq))
              = of_nullable (url_hostname (parse E (baseUrl this)))
          \<and> opt_port (options (getHttpResource_request E this rq))
              = (case url_port (parse E (baseUrl this)) of
                   None \<Rightarrow>
                     if url_protocol (parse E (baseUrl this)) = Some ''https:''
                     then Num 443 else Num 80
                 | Some p \<Rightarrow>
                     if p \<noteq> [] then Str p
                     else if url_protocol (parse E (baseUrl this)) = Some ''https:''
                     then Num 443 else Num 80))
       \<and> (\<forall>c. origin rq = Some (Custom c) \<longrightarrow>
            opt_protocol (options (getHttpResource_request E this rq))
              = Some (to_string (protocol c) @ '':'')
          \<and> opt_hostname (options (getHttpResource_request E this rq)) = domainName c
          \<and> opt_port (options (getHttpResource_request E this rq))
              = (if truthy (port c) then port c
                 else if protocol c = Str ''https'' then Num 443 else Num 80)
          \<and> use_https (getHttpResource_request E this rq)
              = prefix ''https'' (to_string (protocol c)))"
proof -
  have g: "getResource E this rq =
           (case send E (getHttpResource_request E this rq) of
              Thrown err \<Rightarrow> Rejected err
            | Unanswered \<Rightarrow> Pending
            | Answered res \<Rightarrow> on_response res [] (im_events res))"
    using assms by (auto simp: getResource_def getHttpResource_def)
  have own: "http_options E this rq =
      \<lparr>opt_method = req_method rq,
       opt_protocol = url_protocol (parse E (baseUrl this)),
       opt_hostname = of_nullable (url_hostname (parse E (baseUrl this))),
       opt_port = (if truthy (of_nullable (url_port (parse E (baseUrl this))))
                   then of_nullable (url_port (parse E (baseUrl this)))
                   else default_port (url_protocol (parse E (baseUrl this)) = Some ''https:'')),
       opt_path = url_path (parse E (uri rq)),
       opt_headers = AList.update ''connection'' (HString ''Close'')
                       (outgoing_headers E (headers rq))\<rparr>"
    if "\<forall>c. origin rq \<noteq> Some (Custom c)"
    using that by (simp add: http_options_def Let_def split: option.splits cf_origin.splits)
  have p: "prefix ''https'' (s @ '':'') = prefix ''https'' s" for s :: string
    by (auto simp: prefix_snoc snoc_eq_iff_butlast)
  show ?thesis
    using g own p
    by (auto simp: getHttpResource_request_def http_options_def Let_def of_nullable_def
                   default_port_def split: option.splits)
qed

lemma ex_attach_custom:
  "attach_custom_origin ex_env (Origin ex_env ''https://secure.test'' (Some ex_config)) ex_event
   = set_request_origin
       (Some (Custom
          \<lparr>customHeaders = [], domainName = Str ''edge.test'', keepaliveTimeout = 5,
           path = [], port = Num 8443, protocol = Str ''https'', readTimeout = 30,
           sslProtocols = [''TLSv1'', ''TLSv1.1'', ''TLSv1.2'']\<rparr>))
       ex_event"
  by (simp add: attach_custom_origin_def Origin_def backfill_def ex_config_def key_truthy_def
        synthesize_custom_def ex_env_simps ex_parse_def ex_event_def Let_def)

theorem http_fetch_target_witness:
  "type (Origin ex_env ''http://origin.test:8080'' None) = Http
 \<and> origin (request ex_event) = None
 \<and> options (getHttpResource_request ex_env (Origin ex_env ''http://origin.test:8080'' None)
       (request ex_event))
     = \<lparr>opt_method = ''GET'', opt_protocol = Some ''http:'',
        opt_hostname = Str ''origin.test'', opt_port = Str ''8080'',
        opt_path = Some ''/index.html'',
        opt_headers = [(''connection'', HString ''Close'')]\<rparr>
 \<and> type (Origin ex_env ''https://secure.test'' (Some ex_config)) = Https
 \<and> opt_port (options (getHttpResource_request ex_env
       (Origin ex_env ''https://secure.test'' (Some ex_config)) (request ex_event)))
     = Num 443
 \<and> opt_protocol (options (getHttpResource_request ex_env
       (Origin ex_env ''https://secure.test'' (Some ex_config))
       (request (attach_custom_origin ex_env
          (Origin ex_env ''https://secure.test'' (Some ex_config)) ex_event))))
     = Some ''https:''
 \<and> opt_hostname (options (getHttpResource_request ex_env
       (Origin ex_env ''https://secure.test'' (Some ex_config))
       (request (attach_custom_origin ex_env
          (Origin ex_env ''https://secure.test'' (Some ex_config)) ex_event))))
     = Str ''edge.test''
 \<and> opt_port (options (getHttpResource_request ex_env
       (Origin ex_env ''https://secure.test'' (Some ex_config))
       (request (attach_custom_origin ex_env
          (Origin ex_env ''https://secure.test'' (Some ex_config)) ex_event))))
     = Num 8443
 \<and> use_https (getHttpResource_request ex_env
       (Origin ex_env ''https://secure.test'' (Some ex_config))
       (request (attach_custom_origin ex_env
          (Origin ex_env ''https://secure.test'' (Some ex_config)) ex_event)))"
proof -
  let ?web = "Origin ex_env ''http://origin.test:8080'' None"
  let ?sec = "Origin ex_env ''https://secure.test'' (Some ex_config)"
  let ?rq = "request (attach_custom_origin ex_env ?sec ex_event)"
  have w: "type ?web = Http" and s: "type ?sec = Https"
    by (simp_all add: Origin_def)
  have n: "origin (request ex_event) = None" by (simp add: ex_event_def)
  from w have w': "type ?web = Http \<or> type ?web = Https" ..
  from s have s': "type ?sec = Http \<or> type ?sec = Https" ..
  have bw: "parse ex_env (baseUrl ?web) = ex_parse ''http://origin.test:8080''"
    and bs: "parse ex_env (baseUrl ?sec) = ex_parse ''https://secure.test''"
    by (simp_all add: Origin_def ex_env_simps)
  have a: "options (getHttpResource_request ex_env ?web (request ex_event))
     = \<lparr>opt_method = ''GET'', opt_protocol = Some ''http:'',
        opt_hostname = Str ''origin.test'', opt_port = Str ''8080'',
        opt_path = Some ''/index.html'',
        opt_headers = [(''connection'', HString ''Close'')]\<rparr>"
    by (simp add: ex_http_request)
  from http_fetch_target [OF s', of ex_env "request ex_event"] n
  have b: "opt_port (options (getHttpResource_request ex_env ?sec (request ex_event))) = Num 443"
    by (simp add: bs ex_parse_def)
  have c: "origin ?rq = Some (Custom
          \<lparr>customHeaders = [], domainName = Str ''edge.test'', keepaliveTimeout = 5,
           path = [], port = Num 8443, protocol = Str ''https'', readTimeout = 30,
           sslProtocols = [''TLSv1'', ''TLSv1.1'', ''TLSv1.2'']\<rparr>)"
    by (simp add: ex_attach_custom set_request_origin_def)
  from http_fetch_target [OF s', of ex_env ?rq] c
  have d: "opt_protocol (options (getHttpResource_request ex_env ?sec ?rq)) = Some ''https:''
         \<and> opt_hostname (options (getHttpResource_request ex_env ?sec ?rq)) = Str ''edge.test''
         \<and> opt_port (options (getHttpResource_request ex_env ?sec ?rq)) = Num 8443
         \<and> use_https (getHttpResource_request ex_env ?sec ?rq)"
    by simp
  from w n a s b d show ?thesis by blast
qed

text \<open>
  C8. The constructor fixes the kind from the target alone: none for the empty target,
  http and https for targets that start with \<^verbatim>\<open>http://\<close> and \<^verbatim>\<open>https://\<close>, and file
  for every other target, whose base becomes the resolved path. A custom origin
  configuration keeps the domain name, protocol and port that are set and takes the
  others from the parsed base (the protocol without its colon, and only when the base
  has one); its other keys are kept. An origin is a value: \<open>getResource\<close> and
  \<open>retrieve\<close> only read it, so its kind stays what the constructor made it.
\<close>

theorem origin_kind_at_construction:
  "type (Origin E target cfg) =
     (if target = [] then Noop
      else if prefix ''http://'' target then Http
      else if prefix ''https://'' target then Https
      else File)
 \<and> baseUrl (Origin E target cfg) =
     (if target = [] \<or> prefix ''http://'' target \<or> prefix ''https://'' target then target
      else path_resolve E target)
 \<and> type (Origin E target cfg) = type (Origin E' target cfg')
 \<and> (cfg = None \<longrightarrow> customOrigin (Origin E target cfg) = None)
 \<and> (\<forall>c. cfg = Some c \<longrightarrow>
       (\<exists>c'. customOrigin (Origin E target cfg) = Some c'
          \<and> cfg_domainName c' =
              (if key_truthy (cfg_domainName c) then cfg_domainName c
               else Some (of_nullable (url_hostname (parse E (baseUrl (Origin E target cfg))))))
          \<and> cfg_protocol c' =
              (if key_truthy (cfg_protocol c) then cfg_protocol c
               else case url_protocol (parse E (baseUrl (Origin E target cfg))) of
                      None \<Rightarrow> cfg_protocol c
                    | Some p \<Rightarrow> if p \<noteq> [] then Some (Str (butlast p)) else cfg_protocol c)
          \<and> cfg_port c' =
              (if key_truthy (cfg_port c) then cfg_port c
               else Some (of_nullable (url_port (parse E (baseUrl (Origin E target cfg))))))
          \<and> cfg_customHeaders c' = cfg_customHeaders c
          \<and> cfg_keepaliveTimeout c' = cfg_keepaliveTimeout c
          \<and> cfg_path c' = cfg_path c
          \<and> cfg_readTimeout c' = cfg_readTimeout c
          \<and> cfg_sslProtocols c' = cfg_sslProtocols c))"
  by (simp add: Origin_def Let_def backfill_def split: option.splits)

theorem origin_kind_at_construction_witness:
  "type (Origin ex_env [] None) = Noop
 \<and> type (Origin ex_env ''http://origin.test:8080'' None) = Http
 \<and> type (Origin ex_env ''https://secure.test'' (Some ex_unset)) = Https
 \<and> type (Origin ex_env ''public'' None) = File
 \<and> baseUrl (Origin ex_env ''public'' None) = ''/srv/public''
 \<and> customOrigin (Origin ex_env ''public'' None) = None
 \<and> customOrigin (Origin ex_env ''https://secure.test'' (Some ex_unset))
     = Some (ex_unset\<lparr>cfg_domainName := Some (Str ''secure.test''),
                      cfg_protocol := Some (Str ''https''),
                      cfg_port := Some Null\<rparr>)
 \<and> customOrigin (Origin ex_env ''https://secure.test'' (Some ex_config))
     = Some (ex_config\<lparr>cfg_protocol := Some (Str ''https'')\<rparr>)"
proof -
  note t0 = origin_kind_at_construction [of ex_env "[]" None ex_env None]
  note t1 = origin_kind_at_construction [of ex_env "''http://origin.test:8080''" None ex_env None]
  note t2 = origin_kind_at_construction
    [of ex_env "''https://secure.test''" "Some ex_unset" ex_env None]
  note t3 = origin_kind_at_construction [of ex_env "''public''" None ex_env None]
  note t4 = origin_kind_at_construction
    [of ex_env "''https://secure.test''" "Some ex_config" ex_env None]
  from t0 have a: "type (Origin ex_env [] None) = Noop" by simp
  from t1 have b: "type (Origin ex_env ''http://origin.test:8080'' None) = Http" by simp
  from t2 have c: "type (Origin ex_env ''https://secure.test'' (Some ex_unset)) = Https"
    by simp
  from t3 have d: "type (Origin ex_env ''public'' None) = File"
    and e: "baseUrl (Origin ex_env ''public'' None) = ''/srv/public''"
    and f: "customOrigin (Origin ex_env ''public'' None) = None"
    by (simp_all add: ex_env_simps)
  have p: "parse ex_env (baseUrl (Origin ex_env ''https://secure.test'' cfg))
             = ex_parse ''https://secure.test''" for cfg
    by (simp add: Origin_def ex_env_simps)
  from t2 obtain c2 where "customOrigin (Origin ex_env ''https://secure.test'' (Some ex_unset))
      = Some c2"
    and "cfg_domainName c2 = Some (Str ''secure.test'')"
    and "cfg_protocol c2 = Some (Str ''https'')"
    and "cfg_port c2 = Some Null"
    and "cfg_customHeaders c2 = None" "cfg_keepaliveTimeout c2 = None" "cfg_path c2 = None"
      "cfg_readTimeout c2 = None" "cfg_sslProtocols c2 = None"
    by (auto simp: p ex_parse_def ex_unset_def key_truthy_def of_nullable_def)
  then have g: "customOrigin (Origin ex_env ''https://secure.test'' (Some ex_unset))
     = Some (ex_unset\<lparr>cfg_domainName := Some (Str ''secure.test''),
                      cfg_protocol := Some (Str ''https''),
                      cfg_port := Some Null\<rparr>)"
    by (simp add: ex_unset_def)
  from t4 obtain c4 where "customOrigin (Origin ex_env ''https://secure.test'' (Some ex_config))
      = Some c4"
    and "cfg_domainName c4 = Some (Str ''edge.test'')"
    and "cfg_protocol c4 = Some (Str ''https'')"
    and "cfg_port c4 = Some (Num 8443)"
    and "cfg_customHeaders c4 = None" "cfg_keepaliveTimeout c4 = None" "cfg_path c4 = None"
      "cfg_readTimeout c4 = None" "cfg_sslProtocols c4 = None"
    by (auto simp: p ex_parse_def ex_config_def key_truthy_def of_nullable_def)
  then have h: "customOrigin (Origin ex_env ''https://secure.test'' (Some ex_config))
     = Some (ex_config\<lparr>cfg_protocol := Some (Str ''https'')\<rparr>)"
    by (simp add: ex_config_def)
  from a b c d e f g h show ?thesis by blast
qed

text \<open>
  C9. The request handed to the network consists of the module and the options (method,
  protocol, host name, port, path and headers) and is ended with no body chunk written;
  it is the same whatever body the inbound request has. The fetch resolves when the
  upstream response closes, with the concatenation of all the chunks received until
  then, and it does not resolve while only data arrives.
\<close>

theorem upstream_request_without_body:
  "written (getHttpResource_request E this rq) = []
 \<and> getHttpResource_request E this (rq\<lparr>body := b\<rparr>) = getHttpResource_request E this rq
 \<and> (\<forall>res chunks rest.
       send E (getHttpResource_request E this rq) = Answered res
       \<and> im_events res = map Data chunks @ Close # rest \<longrightarrow>
       getHttpResource E this rq =
         Resolved \<lparr>rsc_headers = im_headers res, rsc_statusCode = im_statusCode res,
                   rsc_data = concat chunks\<rparr>)
 \<and> (\<forall>res chunks.
       send E (getHttpResource_request E this rq) = Answered res
       \<and> im_events res = map Data chunks \<longrightarrow>
       getHttpResource E this rq = Pending)"
  by (simp add: getHttpResource_request_def Let_def http_options_body getHttpResource_def
        on_response_data on_response_data_only)

theorem upstream_request_without_body_witness:
  "body (request ex_event) = Some ''payload''
 \<and> written (getHttpResource_request ex_env (Origin ex_env ''http://origin.test:8080'' None)
       (request ex_event)) = []
 \<and> getHttpResource_request ex_env (Origin ex_env ''http://origin.test:8080'' None)
       ((request ex_event)\<lparr>body := None\<rparr>)
     = getHttpResource_request ex_env (Origin ex_env ''http://origin.test:8080'' None)
         (request ex_event)
 \<and> send ex_env (getHttpResource_request ex_env (Origin ex_env ''http://origin.test:8080'' None)
       (request ex_event)) = Answered ex_message
 \<and> im_events ex_message = map Data [''he'', ''llo''] @ Close # []
 \<and> getHttpResource ex_env (Origin ex_env ''http://origin.test:8080'' None) (request ex_event)
     = Resolved \<lparr>rsc_headers = [(''Content-Type'', Single ''text/plain'')],
                 rsc_statusCode = Some 200, rsc_data = ''hello''\<rparr>
 \<and> getHttpResource (ex_env\<lparr>send := \<lambda>cr. Answered (ex_message\<lparr>im_events := [Data ''he'']\<rparr>)\<rparr>)
       (Origin ex_env ''http://origin.test:8080'' None) (request ex_event)
     = Pending"
proof -
  let ?web = "Origin ex_env ''http://origin.test:8080'' None"
  let ?slow = "ex_env\<lparr>send := \<lambda>cr. Answered (ex_message\<lparr>im_events := [Data ''he'']\<rparr>)\<rparr>"
  note t = upstream_request_without_body [of ex_env ?web "request ex_event" None]
  note u = upstream_request_without_body [of ?slow ?web "request ex_event" None]
  have b: "body (request ex_event) = Some ''payload''" by (simp add: ex_event_def)
  have s: "send ex_env (getHttpResource_request ex_env ?web (request ex_event))
             = Answered ex_message"
    by (simp add: ex_env_simps)
  have e: "im_events ex_message = map Data [''he'', ''llo''] @ Close # []"
    by (simp add: ex_message_def)
  from t s e have r: "getHttpResource ex_env ?web (request ex_event)
     = Resolved \<lparr>rsc_headers = im_headers ex_message, rsc_statusCode = im_statusCode ex_message,
                 rsc_data = concat [''he'', ''llo'']\<rparr>"
    by blast
  have s': "send ?slow (getHttpResource_request ?slow ?web (request ex_event))
             = Answered (ex_message\<lparr>im_events := [Data ''he'']\<rparr>)"
    by simp
  have e': "im_events (ex_message\<lparr>im_events := [Data ''he'']\<rparr>) = map Data [''he'']"
    by simp
  from u s' e' have p: "getHttpResource ?slow ?web (request ex_event) = Pending"
    by blast
  from t b s e r p show ?thesis
    by (simp add: ex_message_def)
qed

section \<open>Matching requests and answering them\<close>

lemma FunctionSet_fields:
  "FunctionSet E pat org = Inr fs \<Longrightarrow> pattern fs = pat \<and> globToRegExp E pat = Inr (regex fs)"
  by (cases "globToRegExp E pat") (auto simp: FunctionSet_def)

lemma setHandler_fields:
  "setHandler E fs t p = Inr fs' \<Longrightarrow>
     pattern fs' = pattern fs \<and> regex fs' = regex fs \<and> fs_origin fs' = fs_origin fs"
  by (cases t; cases "load_request_handler E p"; cases "load_response_handler E p")
     (auto simp: setHandler_def)

lemma map_of_snoc_fresh:
  "map_of bs k = None \<Longrightarrow> map_of (bs @ [(k, v)]) = (map_of bs)(k \<mapsto> v)"
  by (rule ext) (simp add: map_of_append map_add_def split: option.splits)

text \<open>One registration: the function set is found or created, then its handler is set.\<close>

lemma register_def_cases:
  assumes r: "register_def E origins base bs d = Inr bs'"
  obtains bs1 fs1 fs2 where
    "map_of bs (pattern_of d) = Some fs1 \<and> bs1 = bs
     \<or> map_of bs (pattern_of d) = None
       \<and> FunctionSet E (pattern_of d) (map_of origins (pattern_of d)) = Inr fs1
       \<and> bs1 = bs @ [(pattern_of d, fs1)]"
    "eventType_of d = None \<and> fs2 = fs1 \<and> bs' = bs1
     \<or> (\<exists>ty. eventType_of d = Some ty
            \<and> setHandler E fs1 ty (path_join E base (handler d)) = Inr fs2)
       \<and> bs' = AList.update (pattern_of d) fs2 bs1"
proof -
  let ?pat = "pattern_of d"
  have "\<exists>bs1 fs1.
      (map_of bs ?pat = Some fs1 \<and> bs1 = bs
       \<or> map_of bs ?pat = None \<and> FunctionSet E ?pat (map_of origins ?pat) = Inr fs1
         \<and> bs1 = bs @ [(?pat, fs1)])
    \<and> (case eventType_of d of
             None \<Rightarrow> Inr bs1
           | Some eventType \<Rightarrow>
               (case setHandler E fs1 eventType (path_join E base (handler d)) of
                  Inl e \<Rightarrow> Inl e
                | Inr fs \<Rightarrow> Inr (AList.update ?pat fs bs1))) = Inr bs'"
  proof (cases "map_of bs ?pat")
    case (Some fs0)
    with r show ?thesis by (simp add: register_def_def Let_def)
  next
    case None
    show ?thesis
    proof (cases "FunctionSet E ?pat (map_of origins ?pat)")
      case (Inl e)
      with None r show ?thesis by (simp add: register_def_def Let_def)
    next
      case (Inr fs)
      with None r show ?thesis by (simp add: register_def_def Let_def)
    qed
  qed
  then obtain bs1 fs1 where
    a: "map_of bs ?pat = Some fs1 \<and> bs1 = bs
       \<or> map_of bs ?pat = None \<and> FunctionSet E ?pat (map_of origins ?pat) = Inr fs1
         \<and> bs1 = bs @ [(?pat, fs1)]"
    and b: "(case eventType_of d of
             None \<Rightarrow> Inr bs1
           | Some eventType \<Rightarrow>
               (case setHandler E fs1 eventType (path_join E base (handler d)) of
                  Inl e \<Rightarrow> Inl e
                | Inr fs \<Rightarrow> Inr (AList.update ?pat fs bs1))) = Inr bs'"
    by blast
  show thesis
  proof (cases "eventType_of d")
    case None
    with b have "bs' = bs1" by simp
    with None a show ?thesis by (intro that [of fs1 bs1 fs1]) simp_all
  next
    case (Some ty)
    show ?thesis
    proof (cases "setHandler E fs1 ty (path_join E base (handler d))")
      case (Inl e)
      with Some b show ?thesis by simp
    next
      case (Inr fs2)
      with Some b have "bs' = AList.update ?pat fs2 bs1" by simp
      with Some Inr a show ?thesis by (intro that [of fs1 bs1 fs2]) simp_all
    qed
  qed
qed

lemma register_def_keys:
  assumes "register_def E origins base bs d = Inr bs'"
  shows "map fst bs' = rev (List.insert (pattern_of d) (rev (map fst bs)))"
  using assms
proof (cases rule: register_def_cases)
  case (1 bs1 fs1 fs2)
  from 1(1) have k1: "map fst bs1 = rev (List.insert (pattern_of d) (rev (map fst bs)))"
  proof
    assume "map_of bs (pattern_of d) = Some fs1 \<and> bs1 = bs"
    then have "pattern_of d \<in> set (map fst bs)" "bs1 = bs"
      using map_of_eq_None_iff [of bs "pattern_of d"] by auto
    then show ?thesis by (simp add: List.insert_def)
  next
    assume "map_of bs (pattern_of d) = None
       \<and> FunctionSet E (pattern_of d) (map_of origins (pattern_of d)) = Inr fs1
       \<and> bs1 = bs @ [(pattern_of d, fs1)]"
    then have "pattern_of d \<notin> set (map fst bs)" "bs1 = bs @ [(pattern_of d, fs1)]"
      using map_of_eq_None_iff [of bs "pattern_of d"] by auto
    then show ?thesis by (simp add: List.insert_def)
  qed
  then have in1: "pattern_of d \<in> set (map fst bs1)"
    by (simp add: List.insert_def split: if_splits)
  from 1(2) have "map fst bs' = map fst bs1"
  proof
    assume "eventType_of d = None \<and> fs2 = fs1 \<and> bs' = bs1"
    then show ?thesis by simp
  next
    assume "(\<exists>ty. eventType_of d = Some ty
            \<and> setHandler E fs1 ty (path_join E base (handler d)) = Inr fs2)
       \<and> bs' = AList.update (pattern_of d) fs2 bs1"
    then have "bs' = AList.update (pattern_of d) fs2 bs1" by simp
    with in1 show ?thesis by (simp add: update_keys)
  qed
  with k1 show ?thesis by simp
qed

lemma register_def_map_of:
  assumes r: "register_def E origins base bs d = Inr bs'"
    and inv: "\<forall>k fs. map_of bs k = Some fs \<longrightarrow> pattern fs = k \<and> globToRegExp E k = Inr (regex fs)"
  shows "\<exists>fs. map_of bs' = (map_of bs)(pattern_of d \<mapsto> fs)
            \<and> pattern fs = pattern_of d \<and> globToRegExp E (pattern_of d) = Inr (regex fs)"
  using r
proof (cases rule: register_def_cases)
  case (1 bs1 fs1 fs2)
  let ?pat = "pattern_of d"
  from 1(1) have m1: "map_of bs1 = (map_of bs)(?pat \<mapsto> fs1)"
  proof
    assume "map_of bs ?pat = Some fs1 \<and> bs1 = bs"
    then show ?thesis by (simp add: fun_upd_idem)
  next
    assume a: "map_of bs ?pat = None
       \<and> FunctionSet E ?pat (map_of origins ?pat) = Inr fs1 \<and> bs1 = bs @ [(?pat, fs1)]"
    then have "map_of (bs @ [(?pat, fs1)]) = (map_of bs)(?pat \<mapsto> fs1)"
      by (intro map_of_snoc_fresh) simp
    with a show ?thesis by (simp only:)
  qed
  from 1(1) have f1: "pattern fs1 = ?pat \<and> globToRegExp E ?pat = Inr (regex fs1)"
  proof
    assume "map_of bs ?pat = Some fs1 \<and> bs1 = bs"
    with inv show ?thesis by blast
  next
    assume "map_of bs ?pat = None
       \<and> FunctionSet E ?pat (map_of origins ?pat) = Inr fs1 \<and> bs1 = bs @ [(?pat, fs1)]"
    then have "FunctionSet E ?pat (map_of origins ?pat) = Inr fs1" by simp
    then show ?thesis by (rule FunctionSet_fields)
  qed
  from 1(2) show ?thesis
  proof
    assume "eventType_of d = None \<and> fs2 = fs1 \<and> bs' = bs1"
    with m1 f1 show ?thesis by blast
  next
    assume a: "(\<exists>ty. eventType_of d = Some ty
            \<and> setHandler E fs1 ty (path_join E base (handler d)) = Inr fs2)
       \<and> bs' = AList.update ?pat fs2 bs1"
    then have "map_of bs' = (map_of bs)(?pat \<mapsto> fs2)"
      using m1 by (simp add: update_conv')
    moreover from a f1 have "pattern fs2 = ?pat \<and> globToRegExp E ?pat = Inr (regex fs2)"
      by (auto dest: setHandler_fields)
    ultimately show ?thesis by blast
  qed
qed

lemma register_defs_keys:
  "register_defs E origins base bs ds = Inr bs' \<Longrightarrow>
     map fst bs' = rev (fold List.insert (map pattern_of ds) (rev (map fst bs)))"
proof (induction ds arbitrary: bs)
  case Nil
  then show ?case by simp
next
  case (Cons d ds)
  from Cons.prems(1) obtain bs1 where s: "register_def E origins base bs d = Inr bs1"
    and r: "register_defs E origins base bs1 ds = Inr bs'"
    by (cases "register_def E origins base bs d") simp_all
  have "rev (map fst bs1) = List.insert (pattern_of d) (rev (map fst bs))"
    unfolding register_def_keys [OF s] by (simp only: rev_rev_ident)
  with Cons.IH [OF r] show ?case
    by (simp only: list.map fold_simps comp_apply)
qed

lemma invariant_upd:
  "\<forall>k v. m k = Some v \<longrightarrow> P k v \<Longrightarrow> P k0 v0 \<Longrightarrow> \<forall>k v. (m(k0 \<mapsto> v0)) k = Some v \<longrightarrow> P k v"
  by auto

lemma register_def_fields:
  assumes "register_def E origins base bs d = Inr bs'"
    and "\<forall>k fs. map_of bs k = Some fs \<longrightarrow> pattern fs = k \<and> globToRegExp E k = Inr (regex fs)"
  shows "\<forall>k fs. map_of bs' k = Some fs \<longrightarrow> pattern fs = k \<and> globToRegExp E k = Inr (regex fs)"
proof -
  from register_def_map_of [OF assms] obtain fs' where
    m: "map_of bs' = (map_of bs)(pattern_of d \<mapsto> fs')"
    and f: "pattern fs' = pattern_of d \<and> globToRegExp E (pattern_of d) = Inr (regex fs')"
    by blast
  show ?thesis unfolding m using assms(2) f by (rule invariant_upd)
qed

lemma register_defs_fields:
  "register_defs E origins base bs ds = Inr bs' \<Longrightarrow>
   \<forall>k fs. map_of bs k = Some fs \<longrightarrow> pattern fs = k \<and> globToRegExp E k = Inr (regex fs) \<Longrightarrow>
   \<forall>k fs. map_of bs' k = Some fs \<longrightarrow> pattern fs = k \<and> globToRegExp E k = Inr (regex fs)"
proof (induction ds arbitrary: bs)
  case Nil
  then show ?case by simp
next
  case (Cons d ds)
  from Cons.prems(1) obtain bs1 where s: "register_def E origins base bs d = Inr bs1"
    and r: "register_defs E origins base bs1 ds = Inr bs'"
    by (cases "register_def E origins base bs d") simp_all
  from Cons.IH [OF r register_def_fields [OF s Cons.prems(2)]] show ?case .
qed

lemma extractBehaviors_cases:
  assumes "extractBehaviors E origins base functions = Inr bs"
  obtains (registered) "register_defs E origins base [] (map snd (lambdaDefs functions)) = Inr bs"
      "map_of bs ''*'' \<noteq> None"
  | (added) bs0 fs where
      "register_defs E origins base [] (map snd (lambdaDefs functions)) = Inr bs0"
      "map_of bs0 ''*'' = None" "FunctionSet E ''*'' (map_of origins ''*'') = Inr fs"
      "bs = bs0 @ [(''*'', fs)]"
proof -
  from assms obtain bs0 where
    r: "register_defs E origins base [] (map snd (lambdaDefs functions)) = Inr bs0"
    by (cases "register_defs E origins base [] (map snd (lambdaDefs functions))")
       (simp_all add: extractBehaviors_def)
  show thesis
  proof (cases "map_of bs0 ''*''")
    case None
    with assms r obtain fs where "FunctionSet E ''*'' (map_of origins ''*'') = Inr fs"
      "bs = bs0 @ [(''*'', fs)]"
      by (cases "FunctionSet E ''*'' (map_of origins ''*'')")
         (simp_all add: extractBehaviors_def)
    with r None show ?thesis by (rule added)
  next
    case (Some fs)
    with assms r have "bs = bs0" by (simp add: extractBehaviors_def)
    with r Some show ?thesis by (intro registered) simp_all
  qed
qed

lemma extractBehaviors_keys:
  assumes "extractBehaviors E origins base functions = Inr bs"
  shows "map fst bs =
           rev (fold List.insert (map (pattern_of \<circ> snd) (lambdaDefs functions) @ [''*'']) [])"
proof -
  let ?F = "fold List.insert (map (pattern_of \<circ> snd) (lambdaDefs functions)) []"
  have rhs: "rev (fold List.insert (map (pattern_of \<circ> snd) (lambdaDefs functions) @ [''*'']) [])
              = rev (List.insert ''*'' ?F)"
    by simp
  from assms show ?thesis
  proof (cases rule: extractBehaviors_cases)
    case registered
    from register_defs_keys [OF registered(1)] have k: "map fst bs = rev ?F"
      by (simp only: map_map list.map rev.simps)
    from registered(2) have "''*'' \<in> set (map fst bs)"
      by (simp add: map_of_eq_None_iff)
    then have "''*'' \<in> set ?F" unfolding k by (simp only: set_rev)
    then have "List.insert ''*'' ?F = ?F" by (rule List.in_set_insert)
    with k show ?thesis by (simp only: rhs)
  next
    case (added bs0 fs)
    from register_defs_keys [OF added(1)] have k: "map fst bs0 = rev ?F"
      by (simp only: map_map list.map rev.simps)
    from added(2) have "''*'' \<notin> set (map fst bs0)"
      by (simp add: map_of_eq_None_iff)
    then have "''*'' \<notin> set ?F" unfolding k by simp
    then have "List.insert ''*'' ?F = ''*'' # ?F" by (rule List.not_in_set_insert)
    moreover have "map fst bs = map fst bs0 @ [''*'']" unfolding added(4) by simp
    ultimately show ?thesis using k by (simp only: rhs rev.simps)
  qed
qed

lemma extractBehaviors_fields:
  assumes "extractBehaviors E origins base functions = Inr bs"
  shows "\<forall>k fs. map_of bs k = Some fs \<longrightarrow> pattern fs = k \<and> globToRegExp E k = Inr (regex fs)"
  using assms
proof (cases rule: extractBehaviors_cases)
  case registered
  show ?thesis by (rule register_defs_fields [OF registered(1)]) simp
next
  case (added bs0 fs)
  have i: "\<forall>k fs. map_of bs0 k = Some fs \<longrightarrow> pattern fs = k \<and> globToRegExp E k = Inr (regex fs)"
    by (rule register_defs_fields [OF added(1)]) simp
  from added(2) have m: "map_of bs = (map_of bs0)(''*'' \<mapsto> fs)"
    unfolding added(4) by (rule map_of_snoc_fresh)
  show ?thesis unfolding m using i FunctionSet_fields [OF added(3)] by (rule invariant_upd)
qed

lemma extractBehaviors_default:
  assumes "extractBehaviors E origins base functions = Inr bs"
  shows "\<exists>fs. map_of bs ''*'' = Some fs"
  using assms
proof (cases rule: extractBehaviors_cases)
  case registered
  then show ?thesis by auto
next
  case (added bs0 fs)
  from added(2) have "map_of bs = (map_of bs0)(''*'' \<mapsto> fs)"
    unfolding added(4) by (rule map_of_snoc_fresh)
  then show ?thesis by simp
qed

lemma extractBehaviors_distinct:
  assumes "extractBehaviors E origins base functions = Inr bs"
  shows "distinct (map fst bs)"
proof -
  have "distinct (List.union (map (pattern_of \<circ> snd) (lambdaDefs functions) @ [''*'']) [])"
    by (simp only: distinct_union distinct.simps)
  then have "distinct (fold List.insert (map (pattern_of \<circ> snd) (lambdaDefs functions) @ [''*'']) [])"
    by (simp only: List.union_def)
  then show ?thesis
    by (simp only: extractBehaviors_keys [OF assms] distinct_rev)
qed

text \<open>
  C6, as the code has it. After \<^verbatim>\<open>extractBehaviors\<close> the registry lists the patterns in
  the order in which they were first registered, with \<^verbatim>\<open>*\<close> last when no lambda
  registered it, and each function set carries its pattern and the expression compiled
  from it. For a request that has a non-empty url whose path can be read, \<^verbatim>\<open>match\<close>
  returns a function set, never nothing: the first one in that order whose expression
  accepts the path, and the one registered under \<^verbatim>\<open>*\<close> when none does.
\<close>

theorem match_first_registered:
  assumes ext: "extractBehaviors E origins base functions = Inr bs"
    and url: "in_url req = Some u" "u \<noteq> []"
    and path: "URL_pathname E u = Inr p"
  shows "map fst bs =
           rev (fold List.insert (map (pattern_of \<circ> snd) (lambdaDefs functions) @ [''*'']) [])
       \<and> (\<forall>i<length bs. pattern (snd (bs ! i)) = fst (bs ! i)
                        \<and> globToRegExp E (fst (bs ! i)) = Inr (regex (snd (bs ! i))))
       \<and> (\<exists>fs. match E bs req = Inr (Some fs)
             \<and> ((\<exists>i<length bs. fs = snd (bs ! i) \<and> regex fs p
                     \<and> (\<forall>j<i. \<not> regex (snd (bs ! j)) p))
                \<or> ((\<forall>i<length bs. \<not> regex (snd (bs ! i)) p) \<and> map_of bs ''*'' = Some fs)))"
proof -
  note keys = extractBehaviors_keys [OF ext]
  have fields: "pattern (snd (bs ! i)) = fst (bs ! i)
                  \<and> globToRegExp E (fst (bs ! i)) = Inr (regex (snd (bs ! i)))"
    if "i < length bs" for i
  proof -
    from that have "(fst (bs ! i), snd (bs ! i)) \<in> set bs" by simp
    with extractBehaviors_distinct [OF ext]
    have "map_of bs (fst (bs ! i)) = Some (snd (bs ! i))" by (rule map_of_is_SomeI)
    with extractBehaviors_fields [OF ext] show ?thesis by blast
  qed
  have m: "match E bs req =
      (case find (\<lambda>kv. regex (snd kv) p) bs of
         Some kv \<Rightarrow> Inr (Some (snd kv))
       | None \<Rightarrow> Inr (map_of bs ''*''))"
    using url path by (simp add: match_def)
  have found: "\<exists>fs. match E bs req = Inr (Some fs)
             \<and> ((\<exists>i<length bs. fs = snd (bs ! i) \<and> regex fs p
                     \<and> (\<forall>j<i. \<not> regex (snd (bs ! j)) p))
                \<or> ((\<forall>i<length bs. \<not> regex (snd (bs ! i)) p) \<and> map_of bs ''*'' = Some fs))"
  proof (cases "find (\<lambda>kv. regex (snd kv) p) bs")
    case None
    then have "\<forall>kv\<in>set bs. \<not> regex (snd kv) p"
      by (auto simp: find_None_iff)
    then have "\<forall>i<length bs. \<not> regex (snd (bs ! i)) p"
      by simp
    moreover from extractBehaviors_default [OF ext] obtain fs where "map_of bs ''*'' = Some fs" ..
    ultimately show ?thesis using m None by simp
  next
    case (Some kv)
    then obtain i where "i < length bs" "regex (snd (bs ! i)) p" "kv = bs ! i"
      "\<forall>j<i. \<not> regex (snd (bs ! j)) p"
      unfolding find_Some_iff by blast
    with m Some show ?thesis by auto
  qed
  from keys fields found show ?thesis by blast
qed

lemma ex_behaviors_built:
  "extractBehaviors ex_env [] [] ex_functions = Inr ex_behaviors"
  by (simp add: ex_behaviors_def extractBehaviors_def lambdaDefs_def ex_functions_def
        register_def_def pattern_of_def eventType_of_def nativeDef_def FunctionSet_def
        setHandler_def ex_env_simps ex_glob_def List.map_filter_simps Let_def)

text \<open>
  C6 as stated fails: for a request without a url \<^verbatim>\<open>match\<close> returns nothing, although
  the registry is built and holds the default function set.
\<close>

theorem match_absent_counterexample:
  "extractBehaviors ex_env [] [] ex_functions = Inr ex_behaviors
 \<and> match ex_env ex_behaviors (ex_request None) = Inr None"
  by (simp add: ex_behaviors_built match_def ex_request_def)

theorem match_first_registered_witness:
  "extractBehaviors ex_env [] [] ex_functions = Inr ex_behaviors
 \<and> in_url (ex_request (Some ''/api/x'')) = Some ''/api/x'' \<and> ''/api/x'' \<noteq> []
 \<and> URL_pathname ex_env ''/api/x'' = Inr ''/api/x''
 \<and> map fst ex_behaviors = [''/api/*'', ''*'']
 \<and> (\<exists>fs. match ex_env ex_behaviors (ex_request (Some ''/api/x'')) = Inr (Some fs)
       \<and> pattern fs = ''/api/*'')
 \<and> (\<exists>fs. match ex_env ex_behaviors (ex_request (Some ''/other'')) = Inr (Some fs)
       \<and> pattern fs = ''*'')"
proof -
  have h1: "extractBehaviors ex_env [] [] ex_functions = Inr ex_behaviors"
    by (rule ex_behaviors_built)
  have h2: "in_url (ex_request (Some ''/api/x'')) = Some ''/api/x''"
    by (simp add: ex_request_def)
  have h3: "''/api/x'' \<noteq> []" by simp
  have h4: "URL_pathname ex_env ''/api/x'' = Inr ''/api/x''" by (simp add: ex_env_simps)
  from match_first_registered [OF h1 h2 h3 h4]
  have k: "map fst ex_behaviors = [''/api/*'', ''*'']"
    by (simp add: lambdaDefs_def ex_functions_def pattern_of_def List.insert_def)
  have m: "\<exists>fs. match ex_env ex_behaviors (ex_request (Some ''/api/x'')) = Inr (Some fs)
       \<and> pattern fs = ''/api/*''"
    by (simp add: ex_behaviors_def extractBehaviors_def lambdaDefs_def ex_functions_def
        register_def_def pattern_of_def eventType_of_def nativeDef_def FunctionSet_def
        setHandler_def ex_env_simps ex_glob_def List.map_filter_simps Let_def
        match_def ex_request_def)
  have d: "\<exists>fs. match ex_env ex_behaviors (ex_request (Some ''/other'')) = Inr (Some fs)
       \<and> pattern fs = ''*''"
    by (simp add: ex_behaviors_def extractBehaviors_def lambdaDefs_def ex_functions_def
        register_def_def pattern_of_def eventType_of_def nativeDef_def FunctionSet_def
        setHandler_def ex_env_simps ex_glob_def List.map_filter_simps Let_def
        match_def ex_request_def)
  from h1 h2 h3 h4 k m d show ?thesis by blast
qed

text \<open>
  C10. For a request that is no purge and has a function set: when \<^verbatim>\<open>run\<close> is rejected
  with an error that is not a Boom error, the request handler settles normally and
  leaves the response object as it was, so that nothing is sent; when the error is a
  Boom error, the response is what \<^verbatim>\<open>handleError\<close> makes of it: the status code and
  the payload error of the Boom error, ended with its message.
\<close>

theorem listener_error_mapping:
  assumes "toUpperCase (case in_method req of None \<Rightarrow> [] | Some m \<Rightarrow> m) \<noteq> ''PURGE''"
    and "match E (rt_behaviors this) req = Inr (Some fs)"
    and "run E \<lparr>disableCache = rt_disableCache this, fileService = rt_cacheService this,
                 fnSet = fs\<rparr>
           (start (convertToCloudFrontEvent E req) s) = (st, Rejected err)"
  shows "(\<not> isBoom err \<longrightarrow>
            request_handler E this s req res = (store st, res, Resolved ()))
       \<and> (isBoom err \<longrightarrow>
            request_handler E this s req res = (store st, handleError err res, Resolved ())
          \<and> statusCode (handleError err res) = Some (output_statusCode err)
          \<and> statusMessage (handleError err res) = output_payload_error err
          \<and> finished (handleError err res) = Ended (Some (message err)))"
  using assms by (simp add: request_handler_def handleError_def)

lemma ex_router_match:
  "match ex_env (rt_behaviors (ex_router e)) (ex_request (Some ''/x''))
   = Inr (Some (ex_fnSet (ex_failing e) identityRequestHandler []))"
  by (simp add: match_def ex_router_def ex_request_def ex_env_simps ex_fnSet_def)

lemma ex_router_run:
  "e \<noteq> NoResult \<Longrightarrow>
   run ex_env
     \<lparr>disableCache = rt_disableCache (ex_router e), fileService = rt_cacheService (ex_router e),
      fnSet = ex_fnSet (ex_failing e) identityRequestHandler []\<rparr>
     (start (convertToCloudFrontEvent ex_env (ex_request (Some ''/x''))) [])
   = (\<lparr>event = ex_convert (ex_request (Some ''/x'')), store = [],
       trace = [Invoke ViewerRequest]\<rparr>, Rejected e)"
  by (simp add: run_def onViewerRequest_def emit_def start_def ex_router_def ex_fnSet_def
        ex_failing_def ex_env_simps)

lemma ex_not_purge:
  "toUpperCase (case in_method (ex_request u) of None \<Rightarrow> [] | Some m \<Rightarrow> m) \<noteq> ''PURGE''"
  by (simp add: ex_request_def toUpperCase_def)

theorem listener_error_mapping_witness:
  "toUpperCase (case in_method (ex_request (Some ''/x'')) of None \<Rightarrow> [] | Some m \<Rightarrow> m)
     \<noteq> ''PURGE''
 \<and> match ex_env (rt_behaviors (ex_router (Fault ''crash''))) (ex_request (Some ''/x''))
     = Inr (Some (ex_fnSet (ex_failing (Fault ''crash'')) identityRequestHandler []))
 \<and> \<not> isBoom (Fault ''crash'')
 \<and> request_handler ex_env (ex_router (Fault ''crash'')) [] (ex_request (Some ''/x'')) ex_res
     = ([], ex_res, Resolved ())
 \<and> finished ex_res = NotEnded
 \<and> isBoom (Boom 403 ''Forbidden'' ''no entry'')
 \<and> request_handler ex_env (ex_router (Boom 403 ''Forbidden'' ''no entry'')) []
       (ex_request (Some ''/x'')) ex_res
     = ([], \<lparr>statusCode = Some 403, statusMessage = ''Forbidden'', res_headers = [],
             finished = Ended (Some ''no entry'')\<rparr>, Resolved ())"
proof -
  note h1 = ex_not_purge [of "Some ''/x''"]
  note t1 = listener_error_mapping
    [OF h1 ex_router_match [of "Fault ''crash''"] ex_router_run [of "Fault ''crash''"],
     of ex_res, simplified]
  note t2 = listener_error_mapping
    [OF h1 ex_router_match [of "Boom 403 ''Forbidden'' ''no entry''"]
       ex_router_run [of "Boom 403 ''Forbidden'' ''no entry''"], of ex_res, simplified]
  from t1 have a: "request_handler ex_env (ex_router (Fault ''crash'')) []
      (ex_request (Some ''/x'')) ex_res = ([], ex_res, Resolved ())"
    by simp
  from t2 have b: "request_handler ex_env (ex_router (Boom 403 ''Forbidden'' ''no entry'')) []
       (ex_request (Some ''/x'')) ex_res
     = ([], \<lparr>statusCode = Some 403, statusMessage = ''Forbidden'', res_headers = [],
             finished = Ended (Some ''no entry'')\<rparr>, Resolved ())"
    by (simp add: handleError_def ex_res_def)
  have c: "finished ex_res = NotEnded" by (simp add: ex_res_def)
  from h1 ex_router_match [of "Fault ''crash''"] a b c show ?thesis by simp
qed


end
